theory Spec2Isabelle
  imports Main "HOL-Library.AList"
begin

section \<open>Values, dictionaries and exceptions\<close>

text \<open>
  The exceptions the modelled code can raise: the Python built-ins that an unguarded
  \<open>next\<close>, subscript or attribute access raises, the plugin's own classes
  (exceptions.py), and \<open>ApiException\<close> for a failed call of the generated API client
  (carrying the HTTP status).
\<close>

datatype error =
  StopIteration | KeyError | AttributeError | TypeError
  | SonarrError | SonarrAPIError string int | SonarrConfigError
  | SonarrConfigUnsupportedError | SonarrSecretsError | SonarrSecretsUnauthorizedError
  | ApiException int

text \<open>
  Untyped attribute values as \<open>to_dict()\<close> of an API resource yields them. A Python
  \<open>dict\<close> is an association list in insertion order; \<open>AList.update\<close> is item
  assignment (replace in place, or append a new key).
\<close>

datatype json =
  JNull | JBool bool | JInt int | JStr string | JList "json list"
  | JObj "(string \<times> json) list"

type_synonym dict = "(string \<times> json) list"

text \<open>\<open>d[k]\<close>: raises \<open>KeyError\<close> when the key is absent.\<close>

definition dict_get :: "('k \<times> 'v) list \<Rightarrow> 'k \<Rightarrow> error + 'v" where
  "dict_get d k = (case map_of d k of None \<Rightarrow> Inl KeyError | Some v \<Rightarrow> Inr v)"

text \<open>\<open>k in d\<close>.\<close>

definition dict_has :: "('k \<times> 'v) list \<Rightarrow> 'k \<Rightarrow> bool" where
  "dict_has d k = (map_of d k \<noteq> None)"

text \<open>\<open>{k: v for ...}\<close> from the items in iteration order: a repeated key keeps its first
  position and takes the last value.\<close>

definition dict_of :: "('k \<times> 'v) list \<Rightarrow> ('k \<times> 'v) list" where
  "dict_of items = foldl (\<lambda>d (k, v). AList.update k v d) [] items"

text \<open>\<open>{key(x): x for x in xs}\<close>.\<close>

definition dict_by :: "('a \<Rightarrow> 'k) \<Rightarrow> 'a list \<Rightarrow> ('k \<times> 'a) list" where
  "dict_by key xs = dict_of (map (\<lambda>x. (key x, x)) xs)"

text \<open>\<open>d.values()\<close>.\<close>

definition dict_values :: "('k \<times> 'v) list \<Rightarrow> 'v list" where
  "dict_values d = map snd d"

text \<open>\<open>{**a, **b}\<close>.\<close>

definition dict_merge :: "('k \<times> 'v) list \<Rightarrow> ('k \<times> 'v) list \<Rightarrow> ('k \<times> 'v) list" where
  "dict_merge a b = foldl (\<lambda>d (k, v). AList.update k v d) a b"

text \<open>
  \<open>x[k]\<close> for a string key on an untyped value: only a dict supports it. A missing key
  is \<open>KeyError\<close>; any other value is \<open>TypeError\<close>.
\<close>

fun subscript :: "json \<Rightarrow> string \<Rightarrow> error + json" where
  "subscript (JObj d) k = dict_get d k"
| "subscript _ k = Inl TypeError"

text \<open>
  \<open>for x in v\<close> on an untyped value that the API library delivers as a list. (Python
  would also iterate a string or the keys of a dict; such a value is not a field list and
  is rejected here with \<open>TypeError\<close>.)
\<close>

fun as_list :: "json \<Rightarrow> error + json list" where
  "as_list (JList xs) = Inr xs"
| "as_list _ = Inl TypeError"

text \<open>
  Dictionary keys: lists and dicts are unhashable (\<open>TypeError\<close>), and Python identifies
  \<open>True\<close> with \<open>1\<close> and \<open>False\<close> with \<open>0\<close> as keys.
\<close>

fun hashable :: "json \<Rightarrow> bool" where
  "hashable (JList _) = False"
| "hashable (JObj _) = False"
| "hashable _ = True"

fun py_key :: "json \<Rightarrow> json" where
  "py_key (JBool b) = JInt (if b then 1 else 0)"
| "py_key v = v"

text \<open>A list comprehension whose element expression can raise: stops at the first error.\<close>

fun map_err :: "('a \<Rightarrow> error + 'b) \<Rightarrow> 'a list \<Rightarrow> error + 'b list" where
  "map_err f [] = Inr []"
| "map_err f (x # xs) =
     (case f x of
        Inl e \<Rightarrow> Inl e
      | Inr y \<Rightarrow> (case map_err f xs of Inl e \<Rightarrow> Inl e | Inr ys \<Rightarrow> Inr (y # ys)))"

text \<open>
  \<open>str.lower()\<close> on ASCII text: the letters \<open>A\<close> to \<open>Z\<close> are folded, every other
  character is kept. Python also folds the cased letters outside ASCII; the
  implementation names of the API are ASCII class names, and the model does not cover
  a name with other letters.
\<close>

definition lower_char :: "char \<Rightarrow> char" where
  "lower_char c =
     (case map_of (zip ''ABCDEFGHIJKLMNOPQRSTUVWXYZ'' ''abcdefghijklmnopqrstuvwxyz'') c of
        Some l \<Rightarrow> l
      | None \<Rightarrow> c)"

definition lower :: "string \<Rightarrow> string" where
  "lower s = map lower_char s"

text \<open>\<open>str(i)\<close> of an integer, in decimal.\<close>

fun str_nat :: "nat \<Rightarrow> string" where
  "str_nat n =
     (if n < 10 then [''0123456789'' ! n]
      else str_nat (n div 10) @ [''0123456789'' ! (n mod 10)])"

declare str_nat.simps [simp del]

definition str_int :: "int \<Rightarrow> string" where
  "str_int i = (if i < 0 then CHR ''-'' # str_nat (nat (- i)) else str_nat (nat i))"

section \<open>The remote instance: API calls, journal and log\<close>

text \<open>
  The calls of the generated API client that the modelled code issues. The remote
  instance itself is a collaborator: every endpoint is a parameter, a function on an
  abstract world \<open>'w\<close> that may fail. The model keeps a journal of the calls that
  succeeded and the log records it emitted, so that statements about "which calls are
  issued" are statements about the journal. An exception aborts the pass; the state at
  the time of the exception is not returned.
\<close>

datatype api_call =
  ListTag | CreateTag string
  | ListExclusions | CreateExclusions dict | UpdateExclusions string dict
  | DeleteExclusions int
  | CreateDownloadClient dict | UpdateDownloadClient string dict

datatype log_level = DEBUG | INFO

text \<open>A log record: level, format string and arguments; \<open>ArgRepr s\<close> is \<open>repr(s)\<close>.\<close>

datatype log_arg = ArgStr string | ArgInt int | ArgRepr string

type_synonym log_record = "log_level \<times> string \<times> log_arg list"

record 'w state =
  world :: 'w
  calls :: "api_call list"
  logs :: "log_record list"

definition invoke ::
  "api_call \<Rightarrow> ('w \<Rightarrow> error + ('a \<times> 'w)) \<Rightarrow> 'w state \<Rightarrow> error + ('a \<times> 'w state)" where
  "invoke c f st =
     (case f (world st) of
        Inl e \<Rightarrow> Inl e
      | Inr (r, w') \<Rightarrow> Inr (r, st\<lparr>world := w', calls := calls st @ [c]\<rparr>))"

definition invoke_unit ::
  "api_call \<Rightarrow> ('w \<Rightarrow> error + 'w) \<Rightarrow> 'w state \<Rightarrow> error + 'w state" where
  "invoke_unit c f st =
     (case f (world st) of
        Inl e \<Rightarrow> Inl e
      | Inr w' \<Rightarrow> Inr (st\<lparr>world := w', calls := calls st @ [c]\<rparr>))"

definition emit :: "log_level \<Rightarrow> string \<Rightarrow> log_arg list \<Rightarrow> 'w state \<Rightarrow> 'w state" where
  "emit lvl fmt args st = st\<lparr>logs := logs st @ [(lvl, fmt, args)]\<rparr>"

text \<open>What a pass leaves behind on the remote side: the world and the journal, not the log.\<close>

definition observable :: "'w state \<Rightarrow> 'w \<times> api_call list" where
  "observable st = (world st, calls st)"

section \<open>Newznab category codec (config/settings/indexers/util.py)\<close>

text \<open>
  \<open>NabCategory\<close> is a \<open>BaseEnum\<close> of buildarr: a multi-value enumeration. Each member
  is declared with a tuple; the first element is the member's \<open>value\<close>, the remaining
  elements are alternative names, and \<open>cls(x)\<close> returns the member whose tuple holds
  \<open>x\<close> (raising \<open>ValueError\<close> when there is none). Members are not \<open>int\<close> instances.
\<close>

datatype NabCategory =
  TV | TV_WEBDL | TV_FOREIGN | TV_SD | TV_HD | TV_UHD | TV_OTHER | TV_SPORT | TV_ANIME
  | TV_DOCUMENTARY | TV_X265

text \<open>The members in declaration order, with the tuples of the source.\<close>

definition NabCategory_members :: "NabCategory list" where
  "NabCategory_members =
     [TV, TV_WEBDL, TV_FOREIGN, TV_SD, TV_HD, TV_UHD, TV_OTHER, TV_SPORT, TV_ANIME,
      TV_DOCUMENTARY, TV_X265]"

fun NabCategory_value :: "NabCategory \<Rightarrow> int" where
  "NabCategory_value TV = 5000"
| "NabCategory_value TV_WEBDL = 5010"
| "NabCategory_value TV_FOREIGN = 5020"
| "NabCategory_value TV_SD = 5030"
| "NabCategory_value TV_HD = 5040"
| "NabCategory_value TV_UHD = 5045"
| "NabCategory_value TV_OTHER = 5050"
| "NabCategory_value TV_SPORT = 5060"
| "NabCategory_value TV_ANIME = 5070"
| "NabCategory_value TV_DOCUMENTARY = 5080"
| "NabCategory_value TV_X265 = 5090"

fun NabCategory_names :: "NabCategory \<Rightarrow> string list" where
  "NabCategory_names TV = [''TV'']"
| "NabCategory_names TV_WEBDL = [''TV/WEB-DL'']"
| "NabCategory_names TV_FOREIGN = [''TV/Foreign'']"
| "NabCategory_names TV_SD = [''TV/SD'']"
| "NabCategory_names TV_HD = [''TV/HD'']"
| "NabCategory_names TV_UHD = [''TV/UHD'']"
| "NabCategory_names TV_OTHER = [''TV/Other'']"
| "NabCategory_names TV_SPORT = [''TV/Sport'', ''TV/Sports'']"
| "NabCategory_names TV_ANIME = [''TV/Anime'']"
| "NabCategory_names TV_DOCUMENTARY = [''TV/Documentary'']"
| "NabCategory_names TV_X265 = [''TV/x265'']"

text \<open>
  \<open>cls(value)\<close> for an integer \<open>value\<close>: the first member whose tuple holds it. Only the
  first element of a tuple is an integer, so the search compares \<open>NabCategory_value\<close>.
  \<open>None\<close> stands for the \<open>ValueError\<close> that \<open>decode\<close> catches.
\<close>

definition NabCategory_of_int :: "int \<Rightarrow> NabCategory option" where
  "NabCategory_of_int v = find (\<lambda>c. NabCategory_value c = v) NabCategory_members"

text \<open>\<open>Union[NabCategory, int]\<close>, the type of a category as local configuration holds it.\<close>

datatype nab_or_int = Member NabCategory | Code int

text \<open>
  \<^verbatim>\<open>
  def decode(cls, value):
      try: return cls(value)
      except ValueError: return value
  def encode(cls, value):
      return value if isinstance(value, int) else cast(int, value.value)
  \<close>
\<close>

definition decode :: "int \<Rightarrow> nab_or_int" where
  "decode v = (case NabCategory_of_int v of Some c \<Rightarrow> Member c | None \<Rightarrow> Code v)"

fun encode :: "nab_or_int \<Rightarrow> int" where
  "encode (Code v) = v"
| "encode (Member c) = NabCategory_value c"

text \<open>
  The category fields of the Newznab indexer (indexers/usenet/newznab.py): the encoder
  of the remote map is \<open>sorted(NabCategory.encode(c) for c in v)\<close>, and on the way back
  the field validator rebuilds the set with
  \<open>NabCategory.decode(c) if isinstance(c, int) else c\<close>. The local set is given as the
  list of its elements in iteration order.
\<close>

definition categories_encoder :: "nab_or_int list \<Rightarrow> int list" where
  "categories_encoder v = sort (map encode v)"

fun validate_category :: "nab_or_int \<Rightarrow> nab_or_int" where
  "validate_category (Code v) = decode v"
| "validate_category (Member c) = Member c"

definition validate_categories :: "nab_or_int list \<Rightarrow> nab_or_int set" where
  "validate_categories vs = set (map validate_category vs)"

section \<open>Settings orchestrator (config/settings/__init__.py)\<close>

text \<open>
  \<open>SonarrSettings\<close> holds one configuration object per section, in the declaration order
  of the class. The section classes are not part of the modelled files; \<open>'c\<close> is the
  type of a section object, and the section methods are parameters:
  \<open>upd c tree remote check_unmanaged\<close> stands for
  \<open>c.update_remote(tree, secrets, remote, check_unmanaged)\<close> and \<open>del c tree remote\<close>
  for \<open>c.delete_remote(tree, secrets, remote)\<close>, acting on a state \<open>'s\<close> (the remote
  instance the secrets handle reaches) and returning the changed flag or raising.
\<close>

record 'c SonarrSettings =
  media_management :: 'c
  profiles :: 'c
  quality :: 'c
  custom_formats :: 'c
  indexers :: 'c
  download_clients :: 'c
  metadata :: 'c
  tags :: 'c
  general :: 'c
  ui :: 'c

text \<open>
  A list display \<open>[e1, ..., en]\<close> whose elements are calls: the elements are evaluated
  left to right, each on the state the previous one left, and an exception in one of
  them leaves the later ones unevaluated.
\<close>

fun eval_list :: "('s \<Rightarrow> error + ('a \<times> 's)) list \<Rightarrow> 's \<Rightarrow> error + ('a list \<times> 's)" where
  "eval_list [] s = Inr ([], s)"
| "eval_list (f # fs) s =
     (case f s of
        Inl e \<Rightarrow> Inl e
      | Inr (x, s') \<Rightarrow>
          (case eval_list fs s' of
             Inl e \<Rightarrow> Inl e
           | Inr (xs, s'') \<Rightarrow> Inr (x # xs, s'')))"

text \<open>The built-in \<open>any\<close> on a list of booleans.\<close>

fun py_any :: "bool list \<Rightarrow> bool" where
  "py_any [] = False"
| "py_any (b # bs) = (if b then True else py_any bs)"

definition SonarrSettings_update_remote ::
  "('c \<Rightarrow> string \<Rightarrow> 'c \<Rightarrow> bool \<Rightarrow> 's \<Rightarrow> error + (bool \<times> 's)) \<Rightarrow>
   'c SonarrSettings \<Rightarrow> string \<Rightarrow> 'c SonarrSettings \<Rightarrow> bool \<Rightarrow> 's \<Rightarrow> error + (bool \<times> 's)" where
  "SonarrSettings_update_remote upd self tree remote check_unmanaged s =
     (case eval_list
        [upd (tags self) (tree @ ''.tags'') (tags remote) check_unmanaged,
         upd (quality self) (tree @ ''.quality'') (quality remote) check_unmanaged,
         upd (custom_formats self) (tree @ ''.custom_formats'') (custom_formats remote)
           check_unmanaged,
         upd (download_clients self) (tree @ ''.download_clients'') (download_clients remote)
           check_unmanaged,
         upd (indexers self) (tree @ ''.indexers'') (indexers remote) check_unmanaged,
         upd (media_management self) (tree @ ''.media_management'') (media_management remote)
           check_unmanaged,
         upd (profiles self) (tree @ ''.profiles'') (profiles remote) check_unmanaged,
         upd (metadata self) (tree @ ''.metadata'') (metadata remote) check_unmanaged,
         upd (general self) (tree @ ''.general'') (general remote) check_unmanaged,
         upd (ui self) (tree @ ''.ui'') (ui remote) check_unmanaged] s of
        Inl e \<Rightarrow> Inl e
      | Inr (results, s') \<Rightarrow> Inr (py_any results, s'))"

definition SonarrSettings_delete_remote ::
  "('c \<Rightarrow> string \<Rightarrow> 'c \<Rightarrow> 's \<Rightarrow> error + (bool \<times> 's)) \<Rightarrow>
   'c SonarrSettings \<Rightarrow> string \<Rightarrow> 'c SonarrSettings \<Rightarrow> 's \<Rightarrow> error + (bool \<times> 's)" where
  "SonarrSettings_delete_remote del self tree remote s =
     (case eval_list
        [del (profiles self) (tree @ ''.profiles'') (profiles remote),
         del (indexers self) (tree @ ''.indexers'') (indexers remote),
         del (download_clients self) (tree @ ''.download_clients'') (download_clients remote),
         del (media_management self) (tree @ ''.media_management'') (media_management remote),
         del (tags self) (tree @ ''.tags'') (tags remote),
         del (custom_formats self) (tree @ ''.custom_formats'') (custom_formats remote),
         del (quality self) (tree @ ''.quality'') (quality remote),
         del (metadata self) (tree @ ''.metadata'') (metadata remote),
         del (general self) (tree @ ''.general'') (general remote),
         del (ui self) (tree @ ''.ui'') (ui remote)] s of
        Inl e \<Rightarrow> Inl e
      | Inr (results, s') \<Rightarrow> Inr (py_any results, s'))"

section \<open>Tags (config/settings/tags.py)\<close>

text \<open>
  \<open>definitions\<close> is a Python set of labels; the model holds its elements as the list in
  which the set is iterated. The tag API is a parameter.
\<close>

record TagResource =
  tag_id :: int
  label :: string

record 'w tag_api =
  list_tag :: "'w \<Rightarrow> error + (TagResource list \<times> 'w)"
  create_tag :: "string \<Rightarrow> 'w \<Rightarrow> error + 'w"

record SonarrTagsSettings =
  tag_definitions :: "string list"

text \<open>The \<open>for i, tag in enumerate(self.definitions)\<close> loop, with \<open>changed\<close> threaded.\<close>

fun tags_loop ::
  "'w tag_api \<Rightarrow> string \<Rightarrow> (string \<times> int) list \<Rightarrow> (nat \<times> string) list \<Rightarrow> bool \<Rightarrow>
   'w state \<Rightarrow> error + (bool \<times> 'w state)" where
  "tags_loop api tree current_tags [] changed st = Inr (changed, st)"
| "tags_loop api tree current_tags ((i, tag) # rest) changed st =
     (if dict_has current_tags tag then
        tags_loop api tree current_tags rest changed
          (emit DEBUG ''%s.definitions[%i]: %s (exists)''
             [ArgStr tree, ArgInt (int i), ArgRepr tag] st)
      else
        (case invoke_unit (CreateTag tag) (create_tag api tag)
                (emit INFO ''%s.definitions[%i]: %s -> (created)''
                   [ArgStr tree, ArgInt (int i), ArgRepr tag] st) of
           Inl e \<Rightarrow> Inl e
         | Inr st' \<Rightarrow> tags_loop api tree current_tags rest True st'))"

definition SonarrTagsSettings_update_remote ::
  "'w tag_api \<Rightarrow> SonarrTagsSettings \<Rightarrow> string \<Rightarrow> SonarrTagsSettings \<Rightarrow> bool \<Rightarrow>
   'w state \<Rightarrow> error + (bool \<times> 'w state)" where
  "SonarrTagsSettings_update_remote api self tree remote check_unmanaged st =
     (case invoke ListTag (list_tag api) st of
        Inl e \<Rightarrow> Inl e
      | Inr (listed, st1) \<Rightarrow>
          (let current_tags = dict_of (map (\<lambda>t. (label t, tag_id t)) listed) in
           if tag_definitions self \<noteq> [] then
             tags_loop api tree current_tags (enumerate 0 (tag_definitions self)) False st1
           else Inr (False, st1)))"

section \<open>Download clients (config/settings/download_clients/base.py)\<close>

text \<open>
  \<open>DownloadClient\<close> is the base class of the concrete download clients; \<open>'dc\<close> is the
  type of such an object. What the subclasses and the configuration base class of
  buildarr provide is a parameter: the \<open>_implementation\<close> name, the attribute
  projections \<open>get_create_remote_attrs\<close> and \<open>get_update_remote_attrs\<close> for the remote
  map built from the tag ids (they can raise: the tag encoder subscripts \<open>tag_ids\<close>),
  and the two API endpoints. An API resource is held as its \<open>to_dict()\<close>.
\<close>

record ('w, 'dc) downloadclient_env =
  implementation :: "'dc \<Rightarrow> string"
  dc_get_create_remote_attrs :: "'dc \<Rightarrow> string \<Rightarrow> (string \<times> int) list \<Rightarrow> error + dict"
  dc_get_update_remote_attrs ::
    "'dc \<Rightarrow> string \<Rightarrow> 'dc \<Rightarrow> (string \<times> int) list \<Rightarrow> error + (bool \<times> dict)"
  create_download_client :: "dict \<Rightarrow> 'w \<Rightarrow> error + 'w"
  update_download_client :: "string \<Rightarrow> dict \<Rightarrow> 'w \<Rightarrow> error + 'w"

text \<open>\<open>s.implementation.lower()\<close>: the attribute is optional, and \<open>None\<close> has no \<open>lower\<close>.\<close>

definition implementation_lower :: "dict \<Rightarrow> error + string" where
  "implementation_lower s =
     (case map_of s ''implementation'' of
        Some (JStr i) \<Rightarrow> Inr (lower i)
      | _ \<Rightarrow> Inl AttributeError)"

text \<open>
  \<open>next(s for s in schemas if s.implementation.lower() == self._implementation.lower())\<close>:
  the first match; \<open>next\<close> has no default, so an exhausted generator raises
  \<open>StopIteration\<close>.
\<close>

fun next_schema :: "string \<Rightarrow> dict list \<Rightarrow> error + dict" where
  "next_schema impl [] = Inl StopIteration"
| "next_schema impl (s # schemas) =
     (case implementation_lower s of
        Inl e \<Rightarrow> Inl e
      | Inr i \<Rightarrow> if i = lower impl then Inr s else next_schema impl schemas)"

definition DownloadClient_get_api_schema ::
  "('w, 'dc) downloadclient_env \<Rightarrow> 'dc \<Rightarrow> dict list \<Rightarrow> error + dict" where
  "DownloadClient_get_api_schema env self schemas =
     (case next_schema (implementation env self) schemas of
        Inl e \<Rightarrow> Inl e
      | Inr s \<Rightarrow> Inr (filter (\<lambda>(k, v). k \<notin> set [''id'', ''name'']) s))"

text \<open>\<open>{field["name"]: field["value"] for field in fields}\<close>, from the accumulator \<open>acc\<close>.\<close>

fun field_values_from :: "(json \<times> json) list \<Rightarrow> json list \<Rightarrow> error + (json \<times> json) list" where
  "field_values_from acc [] = Inr acc"
| "field_values_from acc (field # rest) =
     (case subscript field ''name'' of
        Inl e \<Rightarrow> Inl e
      | Inr n \<Rightarrow>
          (case subscript field ''value'' of
             Inl e \<Rightarrow> Inl e
           | Inr v \<Rightarrow>
               if hashable n then field_values_from (AList.update (py_key n) v acc) rest
               else Inl TypeError))"

text \<open>
  One element of the merge comprehension:
  \<open>{**f, "value": field_values[f["name"]]} if f["name"] in field_values else f\<close>.
\<close>

definition merge_field :: "(json \<times> json) list \<Rightarrow> json \<Rightarrow> error + json" where
  "merge_field field_values f =
     (case subscript f ''name'' of
        Inl e \<Rightarrow> Inl e
      | Inr n \<Rightarrow>
          if \<not> hashable n then Inl TypeError
          else
            (case map_of field_values (py_key n) of
               None \<Rightarrow> Inr f
             | Some v \<Rightarrow>
                 (case f of
                    JObj d \<Rightarrow> Inr (JObj (AList.update ''value'' v d))
                  | _ \<Rightarrow> Inl TypeError)))"

definition DownloadClient_create_remote ::
  "('w, 'dc) downloadclient_env \<Rightarrow> 'dc \<Rightarrow> string \<Rightarrow> dict list \<Rightarrow> (string \<times> int) list \<Rightarrow>
   string \<Rightarrow> 'w state \<Rightarrow> error + 'w state" where
  "DownloadClient_create_remote env self tree api_downloadclient_schemas tag_ids
     downloadclient_name st =
     (case DownloadClient_get_api_schema env self api_downloadclient_schemas of
        Inl e \<Rightarrow> Inl e
      | Inr api_schema \<Rightarrow>
     (case dc_get_create_remote_attrs env self tree tag_ids of
        Inl e \<Rightarrow> Inl e
      | Inr set_attrs \<Rightarrow>
     (case dict_get set_attrs ''fields'' of
        Inl e \<Rightarrow> Inl e
      | Inr computed \<Rightarrow>
     (case as_list computed of
        Inl e \<Rightarrow> Inl e
      | Inr field_list \<Rightarrow>
     (case field_values_from [] field_list of
        Inl e \<Rightarrow> Inl e
      | Inr field_values \<Rightarrow>
     (case dict_get api_schema ''fields'' of
        Inl e \<Rightarrow> Inl e
      | Inr schema_fields \<Rightarrow>
     (case as_list schema_fields of
        Inl e \<Rightarrow> Inl e
      | Inr fs \<Rightarrow>
     (case map_err (merge_field field_values) fs of
        Inl e \<Rightarrow> Inl e
      | Inr merged \<Rightarrow>
          (let set_attrs' = AList.update ''fields'' (JList merged) set_attrs;
               remote_attrs =
                 dict_merge (dict_merge [(''name'', JStr downloadclient_name)] api_schema)
                   set_attrs'
           in invoke_unit (CreateDownloadClient remote_attrs)
                (create_download_client env remote_attrs) st)))))))))"

text \<open>\<open>str(api_downloadclient.id)\<close>; the id is optional and \<open>str(None)\<close> is \<open>"None"\<close>.\<close>

definition str_id :: "dict \<Rightarrow> string" where
  "str_id r = (case map_of r ''id'' of Some (JInt i) \<Rightarrow> str_int i | _ \<Rightarrow> ''None'')"

definition DownloadClient_update_remote ::
  "('w, 'dc) downloadclient_env \<Rightarrow> 'dc \<Rightarrow> string \<Rightarrow> 'dc \<Rightarrow> (string \<times> int) list \<Rightarrow>
   dict \<Rightarrow> 'w state \<Rightarrow> error + (bool \<times> 'w state)" where
  "DownloadClient_update_remote env self tree remote tag_ids api_downloadclient st =
     (case dc_get_update_remote_attrs env self tree remote tag_ids of
        Inl e \<Rightarrow> Inl e
      | Inr (updated, updated_attrs) \<Rightarrow>
          if updated then
            (case (if dict_has updated_attrs ''fields'' then
                     (case dict_get updated_attrs ''fields'' of
                        Inl e \<Rightarrow> Inl e
                      | Inr computed \<Rightarrow>
                     (case as_list computed of
                        Inl e \<Rightarrow> Inl e
                      | Inr field_list \<Rightarrow>
                     (case field_values_from [] field_list of
                        Inl e \<Rightarrow> Inl e
                      | Inr updated_fields \<Rightarrow>
                     (case dict_get api_downloadclient ''fields'' of
                        Inl e \<Rightarrow> Inl e
                      | Inr live_fields \<Rightarrow>
                     (case as_list live_fields of
                        Inl e \<Rightarrow> Inl e
                      | Inr fs \<Rightarrow>
                     (case map_err (merge_field updated_fields) fs of
                        Inl e \<Rightarrow> Inl e
                      | Inr merged \<Rightarrow>
                          Inr (AList.update ''fields'' (JList merged) updated_attrs)))))))
                   else Inr updated_attrs) of
               Inl e \<Rightarrow> Inl e
             | Inr updated_attrs' \<Rightarrow>
                 (let remote_attrs = dict_merge api_downloadclient updated_attrs' in
                  case invoke_unit
                         (UpdateDownloadClient (str_id api_downloadclient) remote_attrs)
                         (update_download_client env (str_id api_downloadclient) remote_attrs)
                         st of
                    Inl e \<Rightarrow> Inl e
                  | Inr st' \<Rightarrow> Inr (True, st')))
          else Inr (False, st))"

section \<open>Import list exclusions (config/settings/lists/exclusions.py)\<close>

record ListExclusion =
  tmdb_id :: int
  title :: string
  year :: int

text \<open>
  \<open>definitions\<close> is a Python set of \<open>ListExclusion\<close> objects; the model holds its
  elements as the list in which the set is iterated.
\<close>

record ListExclusionsSettings =
  delete_unmanaged :: bool
  definitions :: "ListExclusion list"

text \<open>An \<open>ImportExclusionsResource\<close> of the API, with its remote-assigned \<open>id\<close>.\<close>

record ImportExclusionsResource =
  res_id :: int
  res_tmdb_id :: int
  res_movie_title :: string
  res_movie_year :: int

definition to_dict :: "ImportExclusionsResource \<Rightarrow> dict" where
  "to_dict r =
     [(''id'', JInt (res_id r)), (''tmdbId'', JInt (res_tmdb_id r)),
      (''movieTitle'', JStr (res_movie_title r)), (''movieYear'', JInt (res_movie_year r))]"

text \<open>
  The collaborators of the section: the four endpoints of the exclusions API, and the
  two attribute projections of the configuration base class of buildarr, applied to the
  remote map of \<open>ListExclusion\<close> (three plain attributes, no encoder, so they do not
  raise): \<open>get_create_remote_attrs tree self\<close> and
  \<open>get_update_remote_attrs tree self remote\<close> (called with \<open>set_unchanged=True\<close>).
\<close>

record 'w exclusions_env =
  list_exclusions :: "'w \<Rightarrow> error + (ImportExclusionsResource list \<times> 'w)"
  create_exclusions :: "dict \<Rightarrow> 'w \<Rightarrow> error + 'w"
  update_exclusions :: "string \<Rightarrow> dict \<Rightarrow> 'w \<Rightarrow> error + 'w"
  delete_exclusions :: "int \<Rightarrow> 'w \<Rightarrow> error + 'w"
  get_create_remote_attrs :: "string \<Rightarrow> ListExclusion \<Rightarrow> dict"
  get_update_remote_attrs :: "string \<Rightarrow> ListExclusion \<Rightarrow> ListExclusion \<Rightarrow> bool \<times> dict"

definition ListExclusion_create_remote ::
  "'w exclusions_env \<Rightarrow> ListExclusion \<Rightarrow> string \<Rightarrow> 'w state \<Rightarrow> error + 'w state" where
  "ListExclusion_create_remote env self tree st =
     (let attrs = get_create_remote_attrs env tree self in
      invoke_unit (CreateExclusions attrs) (create_exclusions env attrs) st)"

definition ListExclusion_update_remote ::
  "'w exclusions_env \<Rightarrow> ListExclusion \<Rightarrow> string \<Rightarrow> ListExclusion \<Rightarrow>
   ImportExclusionsResource \<Rightarrow> 'w state \<Rightarrow> error + (bool \<times> 'w state)" where
  "ListExclusion_update_remote env self tree remote api_listexclusion st =
     (case get_update_remote_attrs env tree self remote of
        (updated, updated_attrs) \<Rightarrow>
          if updated then
            (let ident = str_int (res_id api_listexclusion);
                 attrs = dict_merge (to_dict api_listexclusion) updated_attrs in
             case invoke_unit (UpdateExclusions ident attrs)
                    (update_exclusions env ident attrs) st of
               Inl e \<Rightarrow> Inl e
             | Inr st' \<Rightarrow> Inr (True, st'))
          else Inr (False, st))"

definition ListExclusion_delete_remote ::
  "'w exclusions_env \<Rightarrow> int \<Rightarrow> 'w state \<Rightarrow> error + 'w state" where
  "ListExclusion_delete_remote env listexclusion_id st =
     invoke_unit (DeleteExclusions listexclusion_id)
       (delete_exclusions env listexclusion_id) st"

text \<open>\<open>f"{tree}.definitions[{i}]"\<close>.\<close>

definition definitions_tree :: "string \<Rightarrow> int \<Rightarrow> string" where
  "definitions_tree tree i = tree @ ''.definitions['' @ str_int i @ '']''"

text \<open>
  The loop of \<open>update_remote\<close> over \<open>enumerate(local_listexclusions.values())\<close>. The
  arguments of \<open>_update_remote\<close> are evaluated before the call: the two subscripts
  \<open>remote_listexclusions[...]\<close> and \<open>api_listexclusions[...]\<close> come first.
\<close>

fun exclusions_update_loop ::
  "'w exclusions_env \<Rightarrow> string \<Rightarrow> (int \<times> ImportExclusionsResource) list \<Rightarrow>
   (int \<times> ListExclusion) list \<Rightarrow> (nat \<times> ListExclusion) list \<Rightarrow> bool \<Rightarrow> 'w state \<Rightarrow>
   error + (bool \<times> 'w state)" where
  "exclusions_update_loop env tree api_listexclusions remote_listexclusions [] changed st =
     Inr (changed, st)"
| "exclusions_update_loop env tree api_listexclusions remote_listexclusions
     ((i, listexclusion) # rest) changed st =
     (let listexclusion_tree = definitions_tree tree (int i) in
      if \<not> dict_has remote_listexclusions (tmdb_id listexclusion) then
        (case ListExclusion_create_remote env listexclusion listexclusion_tree st of
           Inl e \<Rightarrow> Inl e
         | Inr st' \<Rightarrow>
             exclusions_update_loop env tree api_listexclusions remote_listexclusions rest
               True st')
      else
        (case dict_get remote_listexclusions (tmdb_id listexclusion) of
           Inl e \<Rightarrow> Inl e
         | Inr remote \<Rightarrow>
        (case dict_get api_listexclusions (tmdb_id listexclusion) of
           Inl e \<Rightarrow> Inl e
         | Inr api_listexclusion \<Rightarrow>
        (case ListExclusion_update_remote env listexclusion listexclusion_tree remote
                api_listexclusion st of
           Inl e \<Rightarrow> Inl e
         | Inr (updated, st') \<Rightarrow>
             exclusions_update_loop env tree api_listexclusions remote_listexclusions rest
               (if updated then True else changed) st'))))"

definition ListExclusionsSettings_update_remote ::
  "'w exclusions_env \<Rightarrow> ListExclusionsSettings \<Rightarrow> string \<Rightarrow> ListExclusionsSettings \<Rightarrow>
   bool \<Rightarrow> 'w state \<Rightarrow> error + (bool \<times> 'w state)" where
  "ListExclusionsSettings_update_remote env self tree remote check_unmanaged st =
     (case invoke ListExclusions (list_exclusions env) st of
        Inl e \<Rightarrow> Inl e
      | Inr (listed, st1) \<Rightarrow>
          (let api_listexclusions = dict_by res_tmdb_id listed;
               local_listexclusions = dict_by tmdb_id (definitions self);
               remote_listexclusions = dict_by tmdb_id (definitions remote)
           in exclusions_update_loop env tree api_listexclusions remote_listexclusions
                (enumerate 0 (dict_values local_listexclusions)) False st1))"

text \<open>
  The loop of \<open>delete_remote\<close> over \<open>remote_listexclusions.values()\<close>, with the index
  \<open>i\<close> and \<open>changed\<close> threaded. The source steps the index with \<open>i -= -1\<close>.
\<close>

fun exclusions_delete_loop ::
  "'w exclusions_env \<Rightarrow> ListExclusionsSettings \<Rightarrow> string \<Rightarrow>
   (int \<times> ImportExclusionsResource) list \<Rightarrow> (int \<times> ListExclusion) list \<Rightarrow>
   ListExclusion list \<Rightarrow> int \<Rightarrow> bool \<Rightarrow> 'w state \<Rightarrow> error + (bool \<times> 'w state)" where
  "exclusions_delete_loop env self tree api_listexclusions local_listexclusions [] i changed st =
     Inr (changed, st)"
| "exclusions_delete_loop env self tree api_listexclusions local_listexclusions
     (listexclusion # rest) i changed st =
     (if \<not> dict_has local_listexclusions (tmdb_id listexclusion) then
        (let listexclusion_tree = definitions_tree tree i in
         if delete_unmanaged self then
           (case dict_get api_listexclusions (tmdb_id listexclusion) of
              Inl e \<Rightarrow> Inl e
            | Inr api_listexclusion \<Rightarrow>
           (case ListExclusion_delete_remote env (res_id api_listexclusion)
                   (emit INFO ''%s: (...) -> (deleted)'' [ArgStr listexclusion_tree] st) of
              Inl e \<Rightarrow> Inl e
            | Inr st' \<Rightarrow>
                exclusions_delete_loop env self tree api_listexclusions local_listexclusions
                  rest (i - (- 1)) True st'))
         else
           exclusions_delete_loop env self tree api_listexclusions local_listexclusions
             rest (i - (- 1)) changed
             (emit DEBUG ''%s: (...) (unmanaged)'' [ArgStr listexclusion_tree] st))
      else
        exclusions_delete_loop env self tree api_listexclusions local_listexclusions
          rest i changed st)"

definition ListExclusionsSettings_delete_remote ::
  "'w exclusions_env \<Rightarrow> ListExclusionsSettings \<Rightarrow> string \<Rightarrow> ListExclusionsSettings \<Rightarrow>
   'w state \<Rightarrow> error + (bool \<times> 'w state)" where
  "ListExclusionsSettings_delete_remote env self tree remote st =
     (case invoke ListExclusions (list_exclusions env) st of
        Inl e \<Rightarrow> Inl e
      | Inr (listed, st1) \<Rightarrow>
          (let api_listexclusions = dict_by res_tmdb_id listed;
               local_listexclusions = dict_by tmdb_id (definitions self);
               remote_listexclusions = dict_by tmdb_id (definitions remote)
           in exclusions_delete_loop env self tree api_listexclusions local_listexclusions
                (dict_values remote_listexclusions) (- 1) False st1))"

section \<open>Test doubles\<close>

text \<open>
  Concrete collaborators on which the model can be run: a tag API over a world that is
  the list of the remote tags (label, id), assigning the next free id on creation.
\<close>

definition mock_tag_api :: "((string \<times> int) list) tag_api" where
  "mock_tag_api =
     \<lparr>list_tag = (\<lambda>w. Inr (map (\<lambda>(l, i). \<lparr>tag_id = i, label = l\<rparr>) w, w)),
      create_tag = (\<lambda>l w. Inr (w @ [(l, int (length w) + 1)]))\<rparr>"

text \<open>
  A download client whose object is the pair of its \<open>_implementation\<close> name and the
  attributes its projection computes, and an API that stores the payloads it is sent.
\<close>

definition mock_downloadclient_env :: "(dict list, string \<times> dict) downloadclient_env" where
  "mock_downloadclient_env =
     \<lparr>implementation = fst,
      dc_get_create_remote_attrs = (\<lambda>self tree tag_ids. Inr (snd self)),
      dc_get_update_remote_attrs =
        (\<lambda>self tree remote tag_ids. Inr (snd self \<noteq> snd remote, snd self)),
      create_download_client = (\<lambda>attrs w. Inr (w @ [attrs])),
      update_download_client = (\<lambda>ident attrs w. Inr (w @ [attrs]))\<rparr>"

definition transmission_schema :: dict where
  "transmission_schema =
     [(''id'', JInt 0), (''name'', JStr ''''), (''implementation'', JStr ''Transmission''),
      (''enable'', JBool False),
      (''fields'',
       JList [JObj [(''name'', JStr ''host''), (''value'', JStr ''localhost''),
                    (''label'', JStr ''Host'')],
              JObj [(''name'', JStr ''port''), (''value'', JInt 9091)]])]"

text \<open>
  A local Transmission client (named in lower case, to be matched case-insensitively),
  the remote configuration it is compared with, and the live resource of the API.
\<close>

definition transmission_local :: "string \<times> dict" where
  "transmission_local =
     (''transmission'',
      [(''enable'', JBool True),
       (''fields'', JList [JObj [(''name'', JStr ''host''), (''value'', JStr ''tx.local'')]])])"

definition transmission_remote :: "string \<times> dict" where
  "transmission_remote =
     (''transmission'',
      [(''enable'', JBool False),
       (''fields'', JList [JObj [(''name'', JStr ''host''), (''value'', JStr ''localhost'')]])])"

definition transmission_live :: dict where
  "transmission_live =
     [(''id'', JInt 7), (''name'', JStr ''tx''), (''implementation'', JStr ''Transmission''),
      (''enable'', JBool False),
      (''fields'',
       JList [JObj [(''name'', JStr ''host''), (''value'', JStr ''localhost''),
                    (''label'', JStr ''Host'')],
              JObj [(''name'', JStr ''port''), (''value'', JInt 9091)]])]"

text \<open>
  Modelled from the spec: the attribute projections of the configuration base class
  (base class of \<open>ListExclusion\<close>, not among the source files), for the remote map of
  \<open>ListExclusion\<close>: every mapped attribute is a plain top-level attribute, the create
  payload holds the three of them, and the change detector called with
  \<open>set_unchanged=True\<close> reports a change when some attribute differs and returns all
  three local values. The exclusions API is a table of resources.
\<close>

definition exclusion_attrs :: "ListExclusion \<Rightarrow> dict" where
  "exclusion_attrs e =
     [(''tmdbId'', JInt (tmdb_id e)), (''movieTitle'', JStr (title e)),
      (''movieYear'', JInt (year e))]"

definition mock_exclusions_env :: "(ImportExclusionsResource list) exclusions_env" where
  "mock_exclusions_env =
     \<lparr>list_exclusions = (\<lambda>w. Inr (w, w)),
      create_exclusions = (\<lambda>attrs w. Inr w),
      update_exclusions = (\<lambda>ident attrs w. Inr w),
      delete_exclusions = (\<lambda>i w. Inr (filter (\<lambda>r. res_id r \<noteq> i) w)),
      get_create_remote_attrs = (\<lambda>tree e. exclusion_attrs e),
      get_update_remote_attrs =
        (\<lambda>tree e r.
           ((tmdb_id e, title e, year e) \<noteq> (tmdb_id r, title r, year r),
            exclusion_attrs e))\<rparr>"

section \<open>Statement of the collection reconciler\<close>

text \<open>
  The natural key that the specification names for list exclusions, title + year +
  source id, on a configuration entry and on an API resource.
\<close>

definition natural_key :: "ListExclusion \<Rightarrow> string \<times> int \<times> int" where
  "natural_key e = (title e, year e, tmdb_id e)"

definition resource_natural_key :: "ImportExclusionsResource \<Rightarrow> string \<times> int \<times> int" where
  "resource_natural_key a = (res_movie_title a, res_movie_year a, res_tmdb_id a)"

text \<open>
  The collection reconciler as the specification words it, for a key \<open>key\<close> on entries
  and \<open>rkey\<close> on resources: the calls of the update pass (a local entry without a remote
  entry of its key is created; one with such an entry is compared with it and, when
  changed, updated under the id of the listed resource of that key), and the calls of
  the deletion pass (a remote entry without a local entry of its key is deleted under
  the id of the listed resource of that key, when \<open>delete_unmanaged\<close> is set).
\<close>

definition reconcile_update_step ::
  "'w exclusions_env \<Rightarrow> (ListExclusion \<Rightarrow> 'k) \<Rightarrow> (ImportExclusionsResource \<Rightarrow> 'k) \<Rightarrow> string \<Rightarrow>
   ListExclusion list \<Rightarrow> ImportExclusionsResource list \<Rightarrow> nat \<times> ListExclusion \<Rightarrow>
   api_call list" where
  "reconcile_update_step env key rkey tree remotes listed ie =
     (case ie of (i, e) \<Rightarrow>
        (case find (\<lambda>r. key r = key e) remotes of
           None \<Rightarrow> [CreateExclusions (get_create_remote_attrs env (definitions_tree tree (int i)) e)]
         | Some r \<Rightarrow>
             (case find (\<lambda>a. rkey a = key e) listed of
                None \<Rightarrow> []
              | Some a \<Rightarrow>
                  (case get_update_remote_attrs env (definitions_tree tree (int i)) e r of
                     (updated, attrs) \<Rightarrow>
                       if updated then
                         [UpdateExclusions (str_int (res_id a)) (dict_merge (to_dict a) attrs)]
                       else []))))"

definition reconcile_update_calls ::
  "'w exclusions_env \<Rightarrow> (ListExclusion \<Rightarrow> 'k) \<Rightarrow> (ImportExclusionsResource \<Rightarrow> 'k) \<Rightarrow> string \<Rightarrow>
   ListExclusion list \<Rightarrow> ListExclusion list \<Rightarrow> ImportExclusionsResource list \<Rightarrow>
   api_call list" where
  "reconcile_update_calls env key rkey tree locals remotes listed =
     concat (map (reconcile_update_step env key rkey tree remotes listed) (enumerate 0 locals))"

definition reconcile_delete_step ::
  "(ListExclusion \<Rightarrow> 'k) \<Rightarrow> (ImportExclusionsResource \<Rightarrow> 'k) \<Rightarrow> ListExclusion list \<Rightarrow>
   ImportExclusionsResource list \<Rightarrow> ListExclusion \<Rightarrow> api_call list" where
  "reconcile_delete_step key rkey locals listed r =
     (case find (\<lambda>e. key e = key r) locals of
        Some e \<Rightarrow> []
      | None \<Rightarrow>
          (case find (\<lambda>a. rkey a = key r) listed of
             None \<Rightarrow> []
           | Some a \<Rightarrow> [DeleteExclusions (res_id a)]))"

definition reconcile_delete_calls ::
  "(ListExclusion \<Rightarrow> 'k) \<Rightarrow> (ImportExclusionsResource \<Rightarrow> 'k) \<Rightarrow> bool \<Rightarrow> ListExclusion list \<Rightarrow>
   ListExclusion list \<Rightarrow> ImportExclusionsResource list \<Rightarrow> api_call list" where
  "reconcile_delete_calls key rkey delete_unmanaged_flag locals remotes listed =
     (if delete_unmanaged_flag then
        concat (map (reconcile_delete_step key rkey locals listed) remotes)
      else [])"

text \<open>The remote entries whose key (the \<open>tmdb_id\<close>) no local entry has.\<close>

definition unmanaged :: "ListExclusionsSettings \<Rightarrow> ListExclusionsSettings \<Rightarrow> ListExclusion list" where
  "unmanaged self remote =
     filter (\<lambda>r. tmdb_id r \<notin> set (map tmdb_id (definitions self))) (definitions remote)"

text \<open>
  The delete endpoint applied to the ids in turn, from world \<open>w\<close>: what a deletion pass
  that issues these calls does to the remote instance.
\<close>

fun run_deletes :: "'w exclusions_env \<Rightarrow> int list \<Rightarrow> 'w \<Rightarrow> error + 'w" where
  "run_deletes env [] w = Inr w"
| "run_deletes env (i # ids) w =
     (case delete_exclusions env i w of
        Inl e \<Rightarrow> Inl e
      | Inr w' \<Rightarrow> run_deletes env ids w')"

section \<open>Statement of the field merge\<close>

text \<open>
  The statement of the merge: entry \<open>m\<close> of the payload stands where entry \<open>f\<close> of the
  remote field list stood, and it is \<open>f\<close> itself when the name of \<open>f\<close> is not a key of
  \<open>field_values\<close>, and \<open>f\<close> with the computed value under \<open>"value"\<close> when it is.
\<close>

definition merged_entry :: "(json \<times> json) list \<Rightarrow> json \<Rightarrow> json \<Rightarrow> bool" where
  "merged_entry field_values f m =
     (case f of
        JObj d \<Rightarrow>
          (case map_of d ''name'' of
             None \<Rightarrow> False
           | Some n \<Rightarrow>
               (case map_of field_values (py_key n) of
                  None \<Rightarrow> m = f
                | Some v \<Rightarrow> m = JObj (AList.update ''value'' v d)))
      | _ \<Rightarrow> False)"

section \<open>Properties of the category codec\<close>

lemma NabCategory_of_int_value: "NabCategory_of_int (NabCategory_value c) = Some c"
  by (cases c) (simp_all add: NabCategory_of_int_def NabCategory_members_def)

lemma NabCategory_of_int_Some: "NabCategory_of_int v = Some c \<Longrightarrow> NabCategory_value c = v"
  unfolding NabCategory_of_int_def by (auto simp: find_Some_iff)

lemma encode_decode: "encode (decode v) = v"
  by (cases "NabCategory_of_int v") (simp_all add: decode_def NabCategory_of_int_Some)

lemma decode_encode_member: "decode (encode (Member c)) = Member c"
  by (simp add: decode_def NabCategory_of_int_value)

text \<open>
  Claim C8. The codec is an invertible pair: encoding a decoded integer gives the integer
  back, decoding an encoded member gives the member back, and a validated category set
  (every validated element is \<open>decode v\<close> for some integer \<open>v\<close>) sent through the
  encoder of the remote map and read back through the validator is the same set.
\<close>

theorem nab_category_codec_roundtrip:
  "encode (decode v) = v
   \<and> decode (encode (Member c)) = Member c
   \<and> validate_categories (map Code (categories_encoder (map decode vs))) = set (map decode vs)"
proof -
  have "map encode (map decode vs) = vs"
    by (induction vs) (simp_all add: encode_decode)
  then have "categories_encoder (map decode vs) = sort vs"
    by (simp add: categories_encoder_def)
  then have "validate_categories (map Code (categories_encoder (map decode vs)))
      = decode ` set vs"
    by (auto simp: validate_categories_def)
  with decode_encode_member [of c] show ?thesis
    by (simp add: encode_decode)
qed

section \<open>Properties of the settings orchestrator\<close>

lemma eval_list_ConsE:
  assumes "eval_list (f # fs) s = Inr (r, t)"
  obtains x s' xs where "f s = Inr (x, s')" and "eval_list fs s' = Inr (xs, t)"
    and "r = x # xs"
  using assms by (auto split: sum.splits)

text \<open>
  Claim C1. \<open>SonarrSettings.update_remote\<close> returns \<open>changed\<close> in state \<open>s\<close> exactly when
  the ten section updates, run in the order tags, quality, custom_formats,
  download_clients, indexers, media_management, profiles, metadata, general, ui, each
  on the state the previous one left, all return; the flags \<open>b1 ... b10\<close> they return
  are unconstrained (a section runs whatever the earlier ones reported), and \<open>changed\<close>
  is their disjunction.
\<close>

theorem settings_update_remote_order:
  "SonarrSettings_update_remote upd self tree remote check_unmanaged s0 = Inr (changed, s)
   \<longleftrightarrow>
   (\<exists>b1 s1 b2 s2 b3 s3 b4 s4 b5 s5 b6 s6 b7 s7 b8 s8 b9 s9 b10.
      upd (tags self) (tree @ ''.tags'') (tags remote) check_unmanaged s0 = Inr (b1, s1)
    \<and> upd (quality self) (tree @ ''.quality'') (quality remote) check_unmanaged s1 = Inr (b2, s2)
    \<and> upd (custom_formats self) (tree @ ''.custom_formats'') (custom_formats remote) check_unmanaged s2 = Inr (b3, s3)
    \<and> upd (download_clients self) (tree @ ''.download_clients'') (download_clients remote) check_unmanaged s3 = Inr (b4, s4)
    \<and> upd (indexers self) (tree @ ''.indexers'') (indexers remote) check_unmanaged s4 = Inr (b5, s5)
    \<and> upd (media_management self) (tree @ ''.media_management'') (media_management remote) check_unmanaged s5 = Inr (b6, s6)
    \<and> upd (profiles self) (tree @ ''.profiles'') (profiles remote) check_unmanaged s6 = Inr (b7, s7)
    \<and> upd (metadata self) (tree @ ''.metadata'') (metadata remote) check_unmanaged s7 = Inr (b8, s8)
    \<and> upd (general self) (tree @ ''.general'') (general remote) check_unmanaged s8 = Inr (b9, s9)
    \<and> upd (ui self) (tree @ ''.ui'') (ui remote) check_unmanaged s9 = Inr (b10, s)
    \<and> changed = (b1 \<or> b2 \<or> b3 \<or> b4 \<or> b5 \<or> b6 \<or> b7 \<or> b8 \<or> b9 \<or> b10))"
  (is "?lhs \<longleftrightarrow> ?rhs")
proof
  assume ?lhs
  then obtain rs where run: "eval_list
      [upd (tags self) (tree @ ''.tags'') (tags remote) check_unmanaged,
       upd (quality self) (tree @ ''.quality'') (quality remote) check_unmanaged,
       upd (custom_formats self) (tree @ ''.custom_formats'') (custom_formats remote) check_unmanaged,
       upd (download_clients self) (tree @ ''.download_clients'') (download_clients remote) check_unmanaged,
       upd (indexers self) (tree @ ''.indexers'') (indexers remote) check_unmanaged,
       upd (media_management self) (tree @ ''.media_management'') (media_management remote) check_unmanaged,
       upd (profiles self) (tree @ ''.profiles'') (profiles remote) check_unmanaged,
       upd (metadata self) (tree @ ''.metadata'') (metadata remote) check_unmanaged,
       upd (general self) (tree @ ''.general'') (general remote) check_unmanaged,
       upd (ui self) (tree @ ''.ui'') (ui remote) check_unmanaged] s0 = Inr (rs, s)"
    and changed: "changed = py_any rs"
    unfolding SonarrSettings_update_remote_def by (auto split: sum.splits)
  from run obtain b1 s1 r1 where c1: "upd (tags self) (tree @ ''.tags'') (tags remote) check_unmanaged s0 = Inr (b1, s1)"
    and run1: "eval_list [upd (quality self) (tree @ ''.quality'') (quality remote) check_unmanaged, upd (custom_formats self) (tree @ ''.custom_formats'') (custom_formats remote) check_unmanaged, upd (download_clients self) (tree @ ''.download_clients'') (download_clients remote) check_unmanaged, upd (indexers self) (tree @ ''.indexers'') (indexers remote) check_unmanaged, upd (media_management self) (tree @ ''.media_management'') (media_management remote) check_unmanaged, upd (profiles self) (tree @ ''.profiles'') (profiles remote) check_unmanaged, upd (metadata self) (tree @ ''.metadata'') (metadata remote) check_unmanaged, upd (general self) (tree @ ''.general'') (general remote) check_unmanaged, upd (ui self) (tree @ ''.ui'') (ui remote) check_unmanaged] s1 = Inr (r1, s)"
    and res1: "rs = b1 # r1"
    by (rule eval_list_ConsE)
  from run1 obtain b2 s2 r2 where c2: "upd (quality self) (tree @ ''.quality'') (quality remote) check_unmanaged s1 = Inr (b2, s2)"
    and run2: "eval_list [upd (custom_formats self) (tree @ ''.custom_formats'') (custom_formats remote) check_unmanaged, upd (download_clients self) (tree @ ''.download_clients'') (download_clients remote) check_unmanaged, upd (indexers self) (tree @ ''.indexers'') (indexers remote) check_unmanaged, upd (media_management self) (tree @ ''.media_management'') (media_management remote) check_unmanaged, upd (profiles self) (tree @ ''.profiles'') (profiles remote) check_unmanaged, upd (metadata self) (tree @ ''.metadata'') (metadata remote) check_unmanaged, upd (general self) (tree @ ''.general'') (general remote) check_unmanaged, upd (ui self) (tree @ ''.ui'') (ui remote) check_unmanaged] s2 = Inr (r2, s)"
    and res2: "r1 = b2 # r2"
    by (rule eval_list_ConsE)
  from run2 obtain b3 s3 r3 where c3: "upd (custom_formats self) (tree @ ''.custom_formats'') (custom_formats remote) check_unmanaged s2 = Inr (b3, s3)"
    and run3: "eval_list [upd (download_clients self) (tree @ ''.download_clients'') (download_clients remote) check_unmanaged, upd (indexers self) (tree @ ''.indexers'') (indexers remote) check_unmanaged, upd (media_management self) (tree @ ''.media_management'') (media_management remote) check_unmanaged, upd (profiles self) (tree @ ''.profiles'') (profiles remote) check_unmanaged, upd (metadata self) (tree @ ''.metadata'') (metadata remote) check_unmanaged, upd (general self) (tree @ ''.general'') (general remote) check_unmanaged, upd (ui self) (tree @ ''.ui'') (ui remote) check_unmanaged] s3 = Inr (r3, s)"
    and res3: "r2 = b3 # r3"
    by (rule eval_list_ConsE)
  from run3 obtain b4 s4 r4 where c4: "upd (download_clients self) (tree @ ''.download_clients'') (download_clients remote) check_unmanaged s3 = Inr (b4, s4)"
    and run4: "eval_list [upd (indexers self) (tree @ ''.indexers'') (indexers remote) check_unmanaged, upd (media_management self) (tree @ ''.media_management'') (media_management remote) check_unmanaged, upd (profiles self) (tree @ ''.profiles'') (profiles remote) check_unmanaged, upd (metadata self) (tree @ ''.metadata'') (metadata remote) check_unmanaged, upd (general self) (tree @ ''.general'') (general remote) check_unmanaged, upd (ui self) (tree @ ''.ui'') (ui remote) check_unmanaged] s4 = Inr (r4, s)"
    and res4: "r3 = b4 # r4"
    by (rule eval_list_ConsE)
  from run4 obtain b5 s5 r5 where c5: "upd (indexers self) (tree @ ''.indexers'') (indexers remote) check_unmanaged s4 = Inr (b5, s5)"
    and run5: "eval_list [upd (media_management self) (tree @ ''.media_management'') (media_management remote) check_unmanaged, upd (profiles self) (tree @ ''.profiles'') (profiles remote) check_unmanaged, upd (metadata self) (tree @ ''.metadata'') (metadata remote) check_unmanaged, upd (general self) (tree @ ''.general'') (general remote) check_unmanaged, upd (ui self) (tree @ ''.ui'') (ui remote) check_unmanaged] s5 = Inr (r5, s)"
    and res5: "r4 = b5 # r5"
    by (rule eval_list_ConsE)
  from run5 obtain b6 s6 r6 where c6: "upd (media_management self) (tree @ ''.media_management'') (media_management remote) check_unmanaged s5 = Inr (b6, s6)"
    and run6: "eval_list [upd (profiles self) (tree @ ''.profiles'') (profiles remote) check_unmanaged, upd (metadata self) (tree @ ''.metadata'') (metadata remote) check_unmanaged, upd (general self) (tree @ ''.general'') (general remote) check_unmanaged, upd (ui self) (tree @ ''.ui'') (ui remote) check_unmanaged] s6 = Inr (r6, s)"
    and res6: "r5 = b6 # r6"
    by (rule eval_list_ConsE)
  from run6 obtain b7 s7 r7 where c7: "upd (profiles self) (tree @ ''.profiles'') (profiles remote) check_unmanaged s6 = Inr (b7, s7)"
    and run7: "eval_list [upd (metadata self) (tree @ ''.metadata'') (metadata remote) check_unmanaged, upd (general self) (tree @ ''.general'') (general remote) check_unmanaged, upd (ui self) (tree @ ''.ui'') (ui remote) check_unmanaged] s7 = Inr (r7, s)"
    and res7: "r6 = b7 # r7"
    by (rule eval_list_ConsE)
  from run7 obtain b8 s8 r8 where c8: "upd (metadata self) (tree @ ''.metadata'') (metadata remote) check_unmanaged s7 = Inr (b8, s8)"
    and run8: "eval_list [upd (general self) (tree @ ''.general'') (general remote) check_unmanaged, upd (ui self) (tree @ ''.ui'') (ui remote) check_unmanaged] s8 = Inr (r8, s)"
    and res8: "r7 = b8 # r8"
    by (rule eval_list_ConsE)
  from run8 obtain b9 s9 r9 where c9: "upd (general self) (tree @ ''.general'') (general remote) check_unmanaged s8 = Inr (b9, s9)"
    and run9: "eval_list [upd (ui self) (tree @ ''.ui'') (ui remote) check_unmanaged] s9 = Inr (r9, s)"
    and res9: "r8 = b9 # r9"
    by (rule eval_list_ConsE)
  from run9 obtain b10 t r10 where c10: "upd (ui self) (tree @ ''.ui'') (ui remote) check_unmanaged s9 = Inr (b10, t)"
    and run10: "eval_list [] t = Inr (r10, s)"
    and res10: "r9 = b10 # r10"
    by (rule eval_list_ConsE)
  from run10 have last: "r10 = []" "t = s" by simp_all
  have "rs = [b1, b2, b3, b4, b5, b6, b7, b8, b9, b10]"
    using res1 res2 res3 res4 res5 res6 res7 res8 res9 res10 last by simp
  with changed have "changed = (b1 \<or> b2 \<or> b3 \<or> b4 \<or> b5 \<or> b6 \<or> b7 \<or> b8 \<or> b9 \<or> b10)" by simp
  with c1 c2 c3 c4 c5 c6 c7 c8 c9 c10 last show ?rhs by blast
next
  assume ?rhs
  then obtain b1 s1 b2 s2 b3 s3 b4 s4 b5 s5 b6 s6 b7 s7 b8 s8 b9 s9 b10 where
    c1: "upd (tags self) (tree @ ''.tags'') (tags remote) check_unmanaged s0 = Inr (b1, s1)" and
    c2: "upd (quality self) (tree @ ''.quality'') (quality remote) check_unmanaged s1 = Inr (b2, s2)" and
    c3: "upd (custom_formats self) (tree @ ''.custom_formats'') (custom_formats remote) check_unmanaged s2 = Inr (b3, s3)" and
    c4: "upd (download_clients self) (tree @ ''.download_clients'') (download_clients remote) check_unmanaged s3 = Inr (b4, s4)" and
    c5: "upd (indexers self) (tree @ ''.indexers'') (indexers remote) check_unmanaged s4 = Inr (b5, s5)" and
    c6: "upd (media_management self) (tree @ ''.media_management'') (media_management remote) check_unmanaged s5 = Inr (b6, s6)" and
    c7: "upd (profiles self) (tree @ ''.profiles'') (profiles remote) check_unmanaged s6 = Inr (b7, s7)" and
    c8: "upd (metadata self) (tree @ ''.metadata'') (metadata remote) check_unmanaged s7 = Inr (b8, s8)" and
    c9: "upd (general self) (tree @ ''.general'') (general remote) check_unmanaged s8 = Inr (b9, s9)" and
    c10: "upd (ui self) (tree @ ''.ui'') (ui remote) check_unmanaged s9 = Inr (b10, s)" and
    changed: "changed = (b1 \<or> b2 \<or> b3 \<or> b4 \<or> b5 \<or> b6 \<or> b7 \<or> b8 \<or> b9 \<or> b10)"
    by blast
  show ?lhs
    unfolding SonarrSettings_update_remote_def
    by (simp add: c1 c2 c3 c4 c5 c6 c7 c8 c9 c10 changed)
qed

text \<open>
  Claim C2. \<open>SonarrSettings.delete_remote\<close> returns \<open>changed\<close> in state \<open>s\<close> exactly when
  the ten section deletion passes, run in the order profiles, indexers,
  download_clients, media_management, tags, custom_formats, quality, metadata, general,
  ui (indexers before download_clients), each on the state the previous one left, all
  return; \<open>changed\<close> is the disjunction of the flags they return.
\<close>

theorem settings_delete_remote_order:
  "SonarrSettings_delete_remote del self tree remote s0 = Inr (changed, s)
   \<longleftrightarrow>
   (\<exists>b1 s1 b2 s2 b3 s3 b4 s4 b5 s5 b6 s6 b7 s7 b8 s8 b9 s9 b10.
      del (profiles self) (tree @ ''.profiles'') (profiles remote) s0 = Inr (b1, s1)
    \<and> del (indexers self) (tree @ ''.indexers'') (indexers remote) s1 = Inr (b2, s2)
    \<and> del (download_clients self) (tree @ ''.download_clients'') (download_clients remote) s2 = Inr (b3, s3)
    \<and> del (media_management self) (tree @ ''.media_management'') (media_management remote) s3 = Inr (b4, s4)
    \<and> del (tags self) (tree @ ''.tags'') (tags remote) s4 = Inr (b5, s5)
    \<and> del (custom_formats self) (tree @ ''.custom_formats'') (custom_formats remote) s5 = Inr (b6, s6)
    \<and> del (quality self) (tree @ ''.quality'') (quality remote) s6 = Inr (b7, s7)
    \<and> del (metadata self) (tree @ ''.metadata'') (metadata remote) s7 = Inr (b8, s8)
    \<and> del (general self) (tree @ ''.general'') (general remote) s8 = Inr (b9, s9)
    \<and> del (ui self) (tree @ ''.ui'') (ui remote) s9 = Inr (b10, s)
    \<and> changed = (b1 \<or> b2 \<or> b3 \<or> b4 \<or> b5 \<or> b6 \<or> b7 \<or> b8 \<or> b9 \<or> b10))"
  (is "?lhs \<longleftrightarrow> ?rhs")
proof
  assume ?lhs
  then obtain rs where run: "eval_list
      [del (profiles self) (tree @ ''.profiles'') (profiles remote),
       del (indexers self) (tree @ ''.indexers'') (indexers remote),
       del (download_clients self) (tree @ ''.download_clients'') (download_clients remote),
       del (media_management self) (tree @ ''.media_management'') (media_management remote),
       del (tags self) (tree @ ''.tags'') (tags remote),
       del (custom_formats self) (tree @ ''.custom_formats'') (custom_formats remote),
       del (quality self) (tree @ ''.quality'') (quality remote),
       del (metadata self) (tree @ ''.metadata'') (metadata remote),
       del (general self) (tree @ ''.general'') (general remote),
       del (ui self) (tree @ ''.ui'') (ui remote)] s0 = Inr (rs, s)"
    and changed: "changed = py_any rs"
    unfolding SonarrSettings_delete_remote_def by (auto split: sum.splits)
  from run obtain b1 s1 r1 where c1: "del (profiles self) (tree @ ''.profiles'') (profiles remote) s0 = Inr (b1, s1)"
    and run1: "eval_list [del (indexers self) (tree @ ''.indexers'') (indexers remote), del (download_clients self) (tree @ ''.download_clients'') (download_clients remote), del (media_management self) (tree @ ''.media_management'') (media_management remote), del (tags self) (tree @ ''.tags'') (tags remote), del (custom_formats self) (tree @ ''.custom_formats'') (custom_formats remote), del (quality self) (tree @ ''.quality'') (quality remote), del (metadata self) (tree @ ''.metadata'') (metadata remote), del (general self) (tree @ ''.general'') (general remote), del (ui self) (tree @ ''.ui'') (ui remote)] s1 = Inr (r1, s)"
    and res1: "rs = b1 # r1"
    by (rule eval_list_ConsE)
  from run1 obtain b2 s2 r2 where c2: "del (indexers self) (tree @ ''.indexers'') (indexers remote) s1 = Inr (b2, s2)"
    and run2: "eval_list [del (download_clients self) (tree @ ''.download_clients'') (download_clients remote), del (media_management self) (tree @ ''.media_management'') (media_management remote), del (tags self) (tree @ ''.tags'') (tags remote), del (custom_formats self) (tree @ ''.custom_formats'') (custom_formats remote), del (quality self) (tree @ ''.quality'') (quality remote), del (metadata self) (tree @ ''.metadata'') (metadata remote), del (general self) (tree @ ''.general'') (general remote), del (ui self) (tree @ ''.ui'') (ui remote)] s2 = Inr (r2, s)"
    and res2: "r1 = b2 # r2"
    by (rule eval_list_ConsE)
  from run2 obtain b3 s3 r3 where c3: "del (download_clients self) (tree @ ''.download_clients'') (download_clients remote) s2 = Inr (b3, s3)"
    and run3: "eval_list [del (media_management self) (tree @ ''.media_management'') (media_management remote), del (tags self) (tree @ ''.tags'') (tags remote), del (custom_formats self) (tree @ ''.custom_formats'') (custom_formats remote), del (quality self) (tree @ ''.quality'') (quality remote), del (metadata self) (tree @ ''.metadata'') (metadata remote), del (general self) (tree @ ''.general'') (general remote), del (ui self) (tree @ ''.ui'') (ui remote)] s3 = Inr (r3, s)"
    and res3: "r2 = b3 # r3"
    by (rule eval_list_ConsE)
  from run3 obtain b4 s4 r4 where c4: "del (media_management self) (tree @ ''.media_management'') (media_management remote) s3 = Inr (b4, s4)"
    and run4: "eval_list [del (tags self) (tree @ ''.tags'') (tags remote), del (custom_formats self) (tree @ ''.custom_formats'') (custom_formats remote), del (quality self) (tree @ ''.quality'') (quality remote), del (metadata self) (tree @ ''.metadata'') (metadata remote), del (general self) (tree @ ''.general'') (general remote), del (ui self) (tree @ ''.ui'') (ui remote)] s4 = Inr (r4, s)"
    and res4: "r3 = b4 # r4"
    by (rule eval_list_ConsE)
  from run4 obtain b5 s5 r5 where c5: "del (tags self) (tree @ ''.tags'') (tags remote) s4 = Inr (b5, s5)"
    and run5: "eval_list [del (custom_formats self) (tree @ ''.custom_formats'') (custom_formats remote), del (quality self) (tree @ ''.quality'') (quality remote), del (metadata self) (tree @ ''.metadata'') (metadata remote), del (general self) (tree @ ''.general'') (general remote), del (ui self) (tree @ ''.ui'') (ui remote)] s5 = Inr (r5, s)"
    and res5: "r4 = b5 # r5"
    by (rule eval_list_ConsE)
  from run5 obtain b6 s6 r6 where c6: "del (custom_formats self) (tree @ ''.custom_formats'') (custom_formats remote) s5 = Inr (b6, s6)"
    and run6: "eval_list [del (quality self) (tree @ ''.quality'') (quality remote), del (metadata self) (tree @ ''.metadata'') (metadata remote), del (general self) (tree @ ''.general'') (general remote), del (ui self) (tree @ ''.ui'') (ui remote)] s6 = Inr (r6, s)"
    and res6: "r5 = b6 # r6"
    by (rule eval_list_ConsE)
  from run6 obtain b7 s7 r7 where c7: "del (quality self) (tree @ ''.quality'') (quality remote) s6 = Inr (b7, s7)"
    and run7: "eval_list [del (metadata self) (tree @ ''.metadata'') (metadata remote), del (general self) (tree @ ''.general'') (general remote), del (ui self) (tree @ ''.ui'') (ui remote)] s7 = Inr (r7, s)"
    and res7: "r6 = b7 # r7"
    by (rule eval_list_ConsE)
  from run7 obtain b8 s8 r8 where c8: "del (metadata self) (tree @ ''.metadata'') (metadata remote) s7 = Inr (b8, s8)"
    and run8: "eval_list [del (general self) (tree @ ''.general'') (general remote), del (ui self) (tree @ ''.ui'') (ui remote)] s8 = Inr (r8, s)"
    and res8: "r7 = b8 # r8"
    by (rule eval_list_ConsE)
  from run8 obtain b9 s9 r9 where c9: "del (general self) (tree @ ''.general'') (general remote) s8 = Inr (b9, s9)"
    and run9: "eval_list [del (ui self) (tree @ ''.ui'') (ui remote)] s9 = Inr (r9, s)"
    and res9: "r8 = b9 # r9"
    by (rule eval_list_ConsE)
  from run9 obtain b10 t r10 where c10: "del (ui self) (tree @ ''.ui'') (ui remote) s9 = Inr (b10, t)"
    and run10: "eval_list [] t = Inr (r10, s)"
    and res10: "r9 = b10 # r10"
    by (rule eval_list_ConsE)
  from run10 have last: "r10 = []" "t = s" by simp_all
  have "rs = [b1, b2, b3, b4, b5, b6, b7, b8, b9, b10]"
    using res1 res2 res3 res4 res5 res6 res7 res8 res9 res10 last by simp
  with changed have "changed = (b1 \<or> b2 \<or> b3 \<or> b4 \<or> b5 \<or> b6 \<or> b7 \<or> b8 \<or> b9 \<or> b10)" by simp
  with c1 c2 c3 c4 c5 c6 c7 c8 c9 c10 last show ?rhs by blast
next
  assume ?rhs
  then obtain b1 s1 b2 s2 b3 s3 b4 s4 b5 s5 b6 s6 b7 s7 b8 s8 b9 s9 b10 where
    c1: "del (profiles self) (tree @ ''.profiles'') (profiles remote) s0 = Inr (b1, s1)" and
    c2: "del (indexers self) (tree @ ''.indexers'') (indexers remote) s1 = Inr (b2, s2)" and
    c3: "del (download_clients self) (tree @ ''.download_clients'') (download_clients remote) s2 = Inr (b3, s3)" and
    c4: "del (media_management self) (tree @ ''.media_management'') (media_management remote) s3 = Inr (b4, s4)" and
    c5: "del (tags self) (tree @ ''.tags'') (tags remote) s4 = Inr (b5, s5)" and
    c6: "del (custom_formats self) (tree @ ''.custom_formats'') (custom_formats remote) s5 = Inr (b6, s6)" and
    c7: "del (quality self) (tree @ ''.quality'') (quality remote) s6 = Inr (b7, s7)" and
    c8: "del (metadata self) (tree @ ''.metadata'') (metadata remote) s7 = Inr (b8, s8)" and
    c9: "del (general self) (tree @ ''.general'') (general remote) s8 = Inr (b9, s9)" and
    c10: "del (ui self) (tree @ ''.ui'') (ui remote) s9 = Inr (b10, s)" and
    changed: "changed = (b1 \<or> b2 \<or> b3 \<or> b4 \<or> b5 \<or> b6 \<or> b7 \<or> b8 \<or> b9 \<or> b10)"
    by blast
  show ?lhs
    unfolding SonarrSettings_delete_remote_def
    by (simp add: c1 c2 c3 c4 c5 c6 c7 c8 c9 c10 changed)
qed

section \<open>Properties of the dictionary helpers\<close>

lemma foldl_update_keys:
  "fst ` set (foldl (\<lambda>d (k, v). AList.update k v d) acc items) = fst ` set acc \<union> fst ` set items"
proof (induction items arbitrary: acc)
  case Nil
  then show ?case by simp
next
  case (Cons item items)
  obtain k v where "item = (k, v)" by (cases item)
  with Cons show ?case by (auto simp: AList.dom_update)
qed

lemma dict_of_keys: "fst ` set (dict_of items) = fst ` set items"
  by (simp add: dict_of_def foldl_update_keys)

lemma dict_has_iff: "dict_has d k \<longleftrightarrow> k \<in> fst ` set d"
  by (simp add: dict_has_def map_of_eq_None_iff)

lemma dict_has_dict_of: "dict_has (dict_of items) k \<longleftrightarrow> k \<in> fst ` set items"
  by (simp add: dict_has_iff dict_of_keys)

section \<open>Properties of the tags section\<close>

lemma tags_loop_calls:
  assumes ok: "\<forall>l w. \<exists>w'. create_tag api l w = Inr w'"
  shows "\<exists>st'. tags_loop api tree cur its changed st
            = Inr (changed \<or> (\<exists>t\<in>set (map snd its). \<not> dict_has cur t), st')
          \<and> calls st' = calls st @ map CreateTag (filter (\<lambda>t. \<not> dict_has cur t) (map snd its))"
proof (induction its arbitrary: changed st)
  case Nil
  then show ?case by simp
next
  case (Cons it its)
  obtain i tag where it: "it = (i, tag)" by (cases it)
  show ?case
  proof (cases "dict_has cur tag")
    case True
    let ?st1 = "emit DEBUG ''%s.definitions[%i]: %s (exists)''
        [ArgStr tree, ArgInt (int i), ArgRepr tag] st"
    from Cons.IH [of changed ?st1] obtain st' where
      "tags_loop api tree cur its changed ?st1
         = Inr (changed \<or> (\<exists>t\<in>set (map snd its). \<not> dict_has cur t), st')"
      "calls st' = calls ?st1 @ map CreateTag (filter (\<lambda>t. \<not> dict_has cur t) (map snd its))"
      by blast
    with True it show ?thesis by (simp add: emit_def)
  next
    case False
    let ?st0 = "emit INFO ''%s.definitions[%i]: %s -> (created)''
        [ArgStr tree, ArgInt (int i), ArgRepr tag] st"
    from ok obtain w' where w': "create_tag api tag (world ?st0) = Inr w'" by blast
    let ?st1 = "?st0\<lparr>world := w', calls := calls ?st0 @ [CreateTag tag]\<rparr>"
    have inv: "invoke_unit (CreateTag tag) (create_tag api tag) ?st0 = Inr ?st1"
      using w' by (simp add: invoke_unit_def)
    from Cons.IH [of True ?st1] obtain st' where
      "tags_loop api tree cur its True ?st1 = Inr (True, st')"
      "calls st' = calls ?st1 @ map CreateTag (filter (\<lambda>t. \<not> dict_has cur t) (map snd its))"
      by auto
    with False it inv show ?thesis by (simp add: emit_def)
  qed
qed

lemma count_list_map_CreateTag:
  "distinct xs \<Longrightarrow> count_list (map CreateTag xs) (CreateTag t) = (if t \<in> set xs then 1 else 0)"
  by (induction xs) auto

text \<open>
  Claim C5. When the tag listing succeeds and tag creation does not fail,
  \<open>SonarrTagsSettings.update_remote\<close> returns, and \<open>changed\<close> is true exactly when some
  local label is absent from the freshly listed remote tags. After the listing call it
  issues the create calls of the absent labels, in iteration order, and no other call:
  each absent label is created once (the definitions are a set), a present label never.
  In particular it is idempotent: when every local label is listed remotely it returns
  \<open>False\<close> and the listing is its only call.
\<close>

theorem tags_update_remote_creates_absent:
  assumes listed: "list_tag api (world st) = Inr (listed, w1)"
    and ok: "\<forall>l w. \<exists>w'. create_tag api l w = Inr w'"
    and dist: "distinct (tag_definitions self)"
  shows "\<exists>st'.
      SonarrTagsSettings_update_remote api self tree remote check_unmanaged st
        = Inr (\<exists>t\<in>set (tag_definitions self). t \<notin> label ` set listed, st')
    \<and> calls st' = calls st @ ListTag #
        map CreateTag (filter (\<lambda>t. t \<notin> label ` set listed) (tag_definitions self))
    \<and> (\<forall>t. count_list (calls st') (CreateTag t) = count_list (calls st) (CreateTag t) +
          (if t \<in> set (tag_definitions self) \<and> t \<notin> label ` set listed then 1 else 0))
    \<and> (set (tag_definitions self) \<subseteq> label ` set listed \<longrightarrow>
          SonarrTagsSettings_update_remote api self tree remote check_unmanaged st
            = Inr (False, st') \<and> calls st' = calls st @ [ListTag])"
proof -
  let ?cur = "dict_of (map (\<lambda>t. (label t, tag_id t)) listed)"
  let ?st1 = "st\<lparr>world := w1, calls := calls st @ [ListTag]\<rparr>"
  let ?absent = "filter (\<lambda>t. t \<notin> label ` set listed) (tag_definitions self)"
  have has: "dict_has ?cur t \<longleftrightarrow> t \<in> label ` set listed" for t
    by (simp add: dict_has_dict_of image_image)
  have inv: "invoke ListTag (list_tag api) st = Inr (listed, ?st1)"
    using listed by (simp add: invoke_def)
  from tags_loop_calls [OF ok, of tree ?cur "enumerate 0 (tag_definitions self)" False ?st1]
  obtain st' where
    loop: "tags_loop api tree ?cur (enumerate 0 (tag_definitions self)) False ?st1
       = Inr (\<exists>t\<in>set (tag_definitions self). t \<notin> label ` set listed, st')"
    and calls: "calls st' = calls st @ ListTag # map CreateTag ?absent"
    by (auto simp: has)
  have run: "SonarrTagsSettings_update_remote api self tree remote check_unmanaged st
        = Inr (\<exists>t\<in>set (tag_definitions self). t \<notin> label ` set listed, st')"
  proof (cases "tag_definitions self = []")
    case True
    with loop inv show ?thesis
      by (simp add: SonarrTagsSettings_update_remote_def)
  next
    case False
    with loop inv show ?thesis
      by (simp add: SonarrTagsSettings_update_remote_def Let_def)
  qed
  have cnt: "count_list (calls st') (CreateTag t) = count_list (calls st) (CreateTag t) +
          (if t \<in> set (tag_definitions self) \<and> t \<notin> label ` set listed then 1 else 0)" for t
    using dist by (simp add: calls count_list_map_CreateTag)
  have idem: "set (tag_definitions self) \<subseteq> label ` set listed \<longrightarrow>
          SonarrTagsSettings_update_remote api self tree remote check_unmanaged st
            = Inr (False, st') \<and> calls st' = calls st @ [ListTag]"
  proof
    assume sub: "set (tag_definitions self) \<subseteq> label ` set listed"
    then have "?absent = []" by (auto simp: filter_empty_conv)
    moreover from sub have "\<not> (\<exists>t\<in>set (tag_definitions self). t \<notin> label ` set listed)" by blast
    ultimately show "SonarrTagsSettings_update_remote api self tree remote check_unmanaged st
            = Inr (False, st') \<and> calls st' = calls st @ [ListTag]"
      using run calls by simp
  qed
  from run calls cnt idem show ?thesis by blast
qed

theorem tags_update_remote_creates_absent_witness:
  "(\<exists>st'. SonarrTagsSettings_update_remote mock_tag_api \<lparr>tag_definitions = [''anime'', ''tv'']\<rparr>
            ''sonarr'' \<lparr>tag_definitions = [''tv'']\<rparr> False
            \<lparr>world = [(''tv'', 1)], calls = [], logs = []\<rparr> = Inr (True, st')
        \<and> calls st' = [ListTag, CreateTag ''anime'']
        \<and> world st' = [(''tv'', 1), (''anime'', 2)])
   \<and> (\<exists>st'. SonarrTagsSettings_update_remote mock_tag_api \<lparr>tag_definitions = [''tv'']\<rparr>
            ''sonarr'' \<lparr>tag_definitions = [''tv'']\<rparr> False
            \<lparr>world = [(''tv'', 1)], calls = [], logs = []\<rparr> = Inr (False, st')
        \<and> calls st' = [ListTag])"
proof -
  let ?st = "\<lparr>world = [(''tv'', 1::int)], calls = [], logs = []\<rparr>"
  have l: "list_tag mock_tag_api (world ?st) = Inr ([\<lparr>tag_id = 1, label = ''tv''\<rparr>], [(''tv'', 1)])"
    by (simp add: mock_tag_api_def)
  have ok: "\<forall>l w. \<exists>w'. create_tag mock_tag_api l w = Inr w'"
    by (simp add: mock_tag_api_def)
  have w: "SonarrTagsSettings_update_remote mock_tag_api \<lparr>tag_definitions = [''anime'', ''tv'']\<rparr>
            ''sonarr'' \<lparr>tag_definitions = [''tv'']\<rparr> False ?st
        = Inr (True, \<lparr>world = [(''tv'', 1), (''anime'', 2)],
            calls = [ListTag, CreateTag ''anime''],
            logs = [(INFO, ''%s.definitions[%i]: %s -> (created)'',
                       [ArgStr ''sonarr'', ArgInt 0, ArgRepr ''anime'']),
                    (DEBUG, ''%s.definitions[%i]: %s (exists)'',
                       [ArgStr ''sonarr'', ArgInt 1, ArgRepr ''tv''])]\<rparr>)"
    by (simp add: SonarrTagsSettings_update_remote_def invoke_def invoke_unit_def emit_def
        mock_tag_api_def dict_of_def dict_has_def enumerate_eq_zip upt_rec)
  from tags_update_remote_creates_absent [OF l ok,
      where self = "\<lparr>tag_definitions = [''anime'', ''tv'']\<rparr>" and tree = "''sonarr''"
        and remote = "\<lparr>tag_definitions = [''tv'']\<rparr>" and check_unmanaged = False]
    tags_update_remote_creates_absent [OF l ok,
      where self = "\<lparr>tag_definitions = [''tv'']\<rparr>" and tree = "''sonarr''"
        and remote = "\<lparr>tag_definitions = [''tv'']\<rparr>" and check_unmanaged = False]
  show ?thesis using w by auto
qed

section \<open>Properties of the download client base class\<close>

lemma dict_get_Inr: "dict_get d k = Inr v \<longleftrightarrow> map_of d k = Some v"
  by (simp add: dict_get_def split: option.splits)

lemma as_list_Inr: "as_list c = Inr cs \<longleftrightarrow> c = JList cs"
  by (cases c) auto

lemma map_err_list_all2: "map_err f xs = Inr ys \<Longrightarrow> list_all2 (\<lambda>x y. f x = Inr y) xs ys"
  by (induction xs arbitrary: ys) (auto split: sum.splits)

lemma merge_field_entry: "merge_field fv f = Inr m \<Longrightarrow> merged_entry fv f m"
  by (cases f)
    (auto simp: merge_field_def merged_entry_def dict_get_def split: option.splits if_splits)

lemma merge_field_name:
  assumes "merge_field fv f = Inr m"
  shows "subscript m ''name'' = subscript f ''name''"
  using assms
  by (cases f)
    (auto simp: merge_field_def dict_get_def AList.update_conv' split: option.splits if_splits)

lemma merge_fields_frame:
  assumes "map_err (merge_field fv) fs = Inr merged"
  shows "list_all2 (merged_entry fv) fs merged"
    and "map (\<lambda>m. subscript m ''name'') merged = map (\<lambda>f. subscript f ''name'') fs"
proof -
  from map_err_list_all2 [OF assms]
  have rel: "list_all2 (\<lambda>f m. merge_field fv f = Inr m) fs merged" .
  then show "list_all2 (merged_entry fv) fs merged"
    by (rule list_all2_mono) (rule merge_field_entry)
  from rel show "map (\<lambda>m. subscript m ''name'') merged = map (\<lambda>f. subscript f ''name'') fs"
    by (induction rule: list_all2_induct) (simp_all add: merge_field_name)
qed

lemma foldl_update_map_of:
  "distinct (map fst b) \<Longrightarrow>
     map_of (foldl (\<lambda>d (k, v). AList.update k v d) a b) = map_of a ++ map_of b"
proof (induction b arbitrary: a)
  case Nil
  then show ?case by simp
next
  case (Cons item b)
  obtain k v where item: "item = (k, v)" by (cases item)
  with Cons.prems have notin: "k \<notin> dom (map_of b)" and dist: "distinct (map fst b)"
    by (auto simp: dom_map_of_conv_image_fst)
  have "map_of (foldl (\<lambda>d (k, v). AList.update k v d) a (item # b))
      = map_of (AList.update k v a) ++ map_of b"
    using Cons.IH [OF dist] item by simp
  also have "\<dots> = (map_of a ++ map_of b)(k \<mapsto> v)"
    using notin by (simp add: AList.update_conv' map_add_upd_left)
  also have "\<dots> = map_of a ++ map_of (item # b)"
    using item by simp
  finally show ?case .
qed

lemma map_of_dict_merge:
  "distinct (map fst b) \<Longrightarrow> map_of (dict_merge a b) = map_of a ++ map_of b"
  by (simp add: dict_merge_def foldl_update_map_of)

lemma foldl_update_map_of_notin:
  "k \<notin> fst ` set b \<Longrightarrow> map_of (foldl (\<lambda>d (k, v). AList.update k v d) a b) k = map_of a k"
  by (induction b arbitrary: a) (auto simp: AList.update_conv')

lemma map_of_dict_merge_notin:
  "k \<notin> fst ` set b \<Longrightarrow> map_of (dict_merge a b) k = map_of a k"
  by (simp add: dict_merge_def foldl_update_map_of_notin)

lemma map_of_dict_merge_update:
  assumes "distinct (map fst b)"
  shows "map_of (dict_merge a (AList.update k v b)) k = Some v"
  using assms by (simp add: map_of_dict_merge AList.distinct_update AList.update_conv')

text \<open>
  The dictionary \<open>field_values\<close>: its keys are the names of the computed fields, and the
  value under a key is the value of a computed field of that name.
\<close>

lemma field_values_from_keys:
  "field_values_from acc cs = Inr fv \<Longrightarrow>
     fst ` set fv = fst ` set acc \<union>
       {py_key n |n c. c \<in> set cs \<and> subscript c ''name'' = Inr n}"
proof (induction cs arbitrary: acc)
  case Nil
  then show ?case by simp
next
  case (Cons c cs)
  from Cons.prems obtain n v where
    n: "subscript c ''name'' = Inr n" and v: "subscript c ''value'' = Inr v"
    and h: "hashable n"
    and rest: "field_values_from (AList.update (py_key n) v acc) cs = Inr fv"
    by (auto split: sum.splits if_splits)
  from Cons.IH [OF rest] n show ?case
    by (auto simp: AList.dom_update)
qed

lemma field_values_from_value:
  "field_values_from acc cs = Inr fv \<Longrightarrow> map_of fv k = Some v \<Longrightarrow>
     map_of acc k = Some v \<or>
     (\<exists>c n. c \<in> set cs \<and> subscript c ''name'' = Inr n \<and> py_key n = k
        \<and> subscript c ''value'' = Inr v)"
proof (induction cs arbitrary: acc)
  case Nil
  then show ?case by simp
next
  case (Cons c cs)
  from Cons.prems(1) obtain n u where
    n: "subscript c ''name'' = Inr n" and u: "subscript c ''value'' = Inr u"
    and rest: "field_values_from (AList.update (py_key n) u acc) cs = Inr fv"
    by (auto split: sum.splits if_splits)
  from Cons.IH [OF rest Cons.prems(2)] n u show ?case
    by (auto simp: AList.update_conv' split: if_splits)
qed

lemma create_remote_payload:
  assumes run: "DownloadClient_create_remote env self tree schemas tag_ids name st = Inr st'"
    and wf: "\<And>attrs. dc_get_create_remote_attrs env self tree tag_ids = Inr attrs
               \<Longrightarrow> distinct (map fst attrs)"
  shows "\<exists>api_schema set_attrs cs field_values fs merged payload.
        DownloadClient_get_api_schema env self schemas = Inr api_schema
      \<and> dc_get_create_remote_attrs env self tree tag_ids = Inr set_attrs
      \<and> map_of set_attrs ''fields'' = Some (JList cs)
      \<and> field_values_from [] cs = Inr field_values
      \<and> map_of api_schema ''fields'' = Some (JList fs)
      \<and> calls st' = calls st @ [CreateDownloadClient payload]
      \<and> map_of payload ''fields'' = Some (JList merged)
      \<and> list_all2 (merged_entry field_values) fs merged
      \<and> map (\<lambda>m. subscript m ''name'') merged = map (\<lambda>f. subscript f ''name'') fs"
proof -
  from run obtain api_schema set_attrs cs field_values fs merged where
    a: "DownloadClient_get_api_schema env self schemas = Inr api_schema"
    and b: "dc_get_create_remote_attrs env self tree tag_ids = Inr set_attrs"
    and c: "map_of set_attrs ''fields'' = Some (JList cs)"
    and d: "field_values_from [] cs = Inr field_values"
    and e: "map_of api_schema ''fields'' = Some (JList fs)"
    and f: "map_err (merge_field field_values) fs = Inr merged"
    and g: "invoke_unit
        (CreateDownloadClient
          (dict_merge (dict_merge [(''name'', JStr name)] api_schema)
            (AList.update ''fields'' (JList merged) set_attrs)))
        (create_download_client env
          (dict_merge (dict_merge [(''name'', JStr name)] api_schema)
            (AList.update ''fields'' (JList merged) set_attrs))) st = Inr st'"
    unfolding DownloadClient_create_remote_def Let_def
    by (auto simp: dict_get_Inr as_list_Inr split: sum.splits)
  let ?payload = "dict_merge (dict_merge [(''name'', JStr name)] api_schema)
            (AList.update ''fields'' (JList merged) set_attrs)"
  from g have calls: "calls st' = calls st @ [CreateDownloadClient ?payload]"
    by (auto simp: invoke_unit_def split: sum.splits)
  have fields: "map_of ?payload ''fields'' = Some (JList merged)"
    by (rule map_of_dict_merge_update) (rule wf [OF b])
  from a b c d e calls fields merge_fields_frame [OF f] show ?thesis by blast
qed

lemma update_remote_payload:
  assumes run: "DownloadClient_update_remote env self tree remote tag_ids api_downloadclient st
                  = Inr (changed, st')"
    and wf: "\<And>u attrs. dc_get_update_remote_attrs env self tree remote tag_ids = Inr (u, attrs)
               \<Longrightarrow> distinct (map fst attrs)"
  shows "\<exists>updated_attrs.
        dc_get_update_remote_attrs env self tree remote tag_ids = Inr (changed, updated_attrs)
      \<and> (if changed then
            (\<exists>payload.
                calls st' = calls st @
                  [UpdateDownloadClient (str_id api_downloadclient) payload]
              \<and> (case map_of updated_attrs ''fields'' of
                    None \<Rightarrow> map_of payload ''fields'' = map_of api_downloadclient ''fields''
                  | Some computed \<Rightarrow>
                      (\<exists>cs updated_fields fs merged.
                          computed = JList cs
                        \<and> field_values_from [] cs = Inr updated_fields
                        \<and> map_of api_downloadclient ''fields'' = Some (JList fs)
                        \<and> map_of payload ''fields'' = Some (JList merged)
                        \<and> list_all2 (merged_entry updated_fields) fs merged
                        \<and> map (\<lambda>m. subscript m ''name'') merged
                            = map (\<lambda>f. subscript f ''name'') fs)))
          else st' = st)"
proof -
  from run obtain updated updated_attrs where
    g: "dc_get_update_remote_attrs env self tree remote tag_ids = Inr (updated, updated_attrs)"
    unfolding DownloadClient_update_remote_def by (auto split: sum.splits)
  note dist = wf [OF g]
  show ?thesis
  proof (cases updated)
    case False
    with run g show ?thesis
      by (simp add: DownloadClient_update_remote_def)
  next
    case True
    show ?thesis
    proof (cases "map_of updated_attrs ''fields''")
      case None
      let ?payload = "dict_merge api_downloadclient updated_attrs"
      from None have notin: "''fields'' \<notin> fst ` set updated_attrs"
        by (simp add: map_of_eq_None_iff)
      from run g True None
      have "changed" and "calls st' = calls st @
          [UpdateDownloadClient (str_id api_downloadclient) ?payload]"
        unfolding DownloadClient_update_remote_def Let_def
        by (auto simp: dict_has_def invoke_unit_def split: sum.splits)
      moreover have "map_of ?payload ''fields'' = map_of api_downloadclient ''fields''"
        by (rule map_of_dict_merge_notin [OF notin])
      ultimately show ?thesis using g None True by auto
    next
      case (Some computed)
      from run g True Some obtain cs updated_fields fs merged where
        c: "computed = JList cs"
        and d: "field_values_from [] cs = Inr updated_fields"
        and e: "map_of api_downloadclient ''fields'' = Some (JList fs)"
        and f: "map_err (merge_field updated_fields) fs = Inr merged"
        and ch: "changed"
        and calls: "calls st' = calls st @
          [UpdateDownloadClient (str_id api_downloadclient)
             (dict_merge api_downloadclient
                (AList.update ''fields'' (JList merged) updated_attrs))]"
        unfolding DownloadClient_update_remote_def Let_def
        by (auto simp: dict_has_def dict_get_Inr as_list_Inr invoke_unit_def
            split: sum.splits)
      have "map_of (dict_merge api_downloadclient
                (AList.update ''fields'' (JList merged) updated_attrs)) ''fields''
          = Some (JList merged)"
        by (rule map_of_dict_merge_update [OF dist])
      with c d e ch calls merge_fields_frame [OF f] g Some True show ?thesis by auto
    qed
  qed
qed

text \<open>
  Claim C7. Provided the projections return dictionaries (no repeated key), the field
  list in the request payload of \<open>_create_remote\<close> (and of \<open>_update_remote\<close>, when it
  sends one and the projection computed fields) is the remote field list \<open>fs\<close> of the
  schema (of the live resource) entry by entry: it has the same length and the same
  names in the same order, an entry whose name is not a key of the computed
  \<open>field_values\<close> is unchanged, and an entry whose name is a key carries the computed
  value under \<open>"value"\<close> and is otherwise unchanged. When \<open>_update_remote\<close> computed no
  fields the payload keeps the live field list; when nothing changed it sends nothing.
\<close>

theorem downloadclient_field_merge_frame:
  assumes wf_create:
      "\<forall>attrs. dc_get_create_remote_attrs env self tree tag_ids = Inr attrs
         \<longrightarrow> distinct (map fst attrs)"
    and wf_update:
      "\<forall>u attrs. dc_get_update_remote_attrs env self tree remote tag_ids = Inr (u, attrs)
         \<longrightarrow> distinct (map fst attrs)"
  shows
    "(DownloadClient_create_remote env self tree schemas tag_ids name st = Inr st1 \<longrightarrow>
       (\<exists>api_schema set_attrs cs field_values fs merged payload.
          DownloadClient_get_api_schema env self schemas = Inr api_schema
        \<and> dc_get_create_remote_attrs env self tree tag_ids = Inr set_attrs
        \<and> map_of set_attrs ''fields'' = Some (JList cs)
        \<and> field_values_from [] cs = Inr field_values
        \<and> map_of api_schema ''fields'' = Some (JList fs)
        \<and> calls st1 = calls st @ [CreateDownloadClient payload]
        \<and> map_of payload ''fields'' = Some (JList merged)
        \<and> list_all2 (merged_entry field_values) fs merged
        \<and> map (\<lambda>m. subscript m ''name'') merged = map (\<lambda>f. subscript f ''name'') fs))
   \<and> (DownloadClient_update_remote env self tree remote tag_ids api_downloadclient st
         = Inr (changed, st2) \<longrightarrow>
       (\<exists>updated_attrs.
          dc_get_update_remote_attrs env self tree remote tag_ids = Inr (changed, updated_attrs)
        \<and> (if changed then
              (\<exists>payload.
                  calls st2 = calls st @
                    [UpdateDownloadClient (str_id api_downloadclient) payload]
                \<and> (case map_of updated_attrs ''fields'' of
                      None \<Rightarrow> map_of payload ''fields'' = map_of api_downloadclient ''fields''
                    | Some computed \<Rightarrow>
                        (\<exists>cs updated_fields fs merged.
                            computed = JList cs
                          \<and> field_values_from [] cs = Inr updated_fields
                          \<and> map_of api_downloadclient ''fields'' = Some (JList fs)
                          \<and> map_of payload ''fields'' = Some (JList merged)
                          \<and> list_all2 (merged_entry updated_fields) fs merged
                          \<and> map (\<lambda>m. subscript m ''name'') merged
                              = map (\<lambda>f. subscript f ''name'') fs)))
            else st2 = st)))"
proof (intro conjI impI)
  assume "DownloadClient_create_remote env self tree schemas tag_ids name st = Inr st1"
  then show "\<exists>api_schema set_attrs cs field_values fs merged payload.
          DownloadClient_get_api_schema env self schemas = Inr api_schema
        \<and> dc_get_create_remote_attrs env self tree tag_ids = Inr set_attrs
        \<and> map_of set_attrs ''fields'' = Some (JList cs)
        \<and> field_values_from [] cs = Inr field_values
        \<and> map_of api_schema ''fields'' = Some (JList fs)
        \<and> calls st1 = calls st @ [CreateDownloadClient payload]
        \<and> map_of payload ''fields'' = Some (JList merged)
        \<and> list_all2 (merged_entry field_values) fs merged
        \<and> map (\<lambda>m. subscript m ''name'') merged = map (\<lambda>f. subscript f ''name'') fs"
    using wf_create by (intro create_remote_payload) blast+
next
  assume "DownloadClient_update_remote env self tree remote tag_ids api_downloadclient st
         = Inr (changed, st2)"
  then show "\<exists>updated_attrs.
          dc_get_update_remote_attrs env self tree remote tag_ids = Inr (changed, updated_attrs)
        \<and> (if changed then
              (\<exists>payload.
                  calls st2 = calls st @
                    [UpdateDownloadClient (str_id api_downloadclient) payload]
                \<and> (case map_of updated_attrs ''fields'' of
                      None \<Rightarrow> map_of payload ''fields'' = map_of api_downloadclient ''fields''
                    | Some computed \<Rightarrow>
                        (\<exists>cs updated_fields fs merged.
                            computed = JList cs
                          \<and> field_values_from [] cs = Inr updated_fields
                          \<and> map_of api_downloadclient ''fields'' = Some (JList fs)
                          \<and> map_of payload ''fields'' = Some (JList merged)
                          \<and> list_all2 (merged_entry updated_fields) fs merged
                          \<and> map (\<lambda>m. subscript m ''name'') merged
                              = map (\<lambda>f. subscript f ''name'') fs)))
            else st2 = st)"
    using wf_update by (intro update_remote_payload) blast+
qed

theorem downloadclient_field_merge_frame_witness:
  "DownloadClient_create_remote mock_downloadclient_env transmission_local ''sonarr''
      [transmission_schema] [] ''tx'' \<lparr>world = [], calls = [], logs = []\<rparr>
    = Inr \<lparr>world =
              [[(''name'', JStr ''tx''), (''implementation'', JStr ''Transmission''),
                (''enable'', JBool True),
                (''fields'',
                 JList [JObj [(''name'', JStr ''host''), (''value'', JStr ''tx.local''),
                              (''label'', JStr ''Host'')],
                        JObj [(''name'', JStr ''port''), (''value'', JInt 9091)]])]],
            calls =
              [CreateDownloadClient
                [(''name'', JStr ''tx''), (''implementation'', JStr ''Transmission''),
                 (''enable'', JBool True),
                 (''fields'',
                  JList [JObj [(''name'', JStr ''host''), (''value'', JStr ''tx.local''),
                               (''label'', JStr ''Host'')],
                         JObj [(''name'', JStr ''port''), (''value'', JInt 9091)]])]],
            logs = []\<rparr>
   \<and> DownloadClient_update_remote mock_downloadclient_env transmission_local ''sonarr''
      transmission_remote [] transmission_live \<lparr>world = [], calls = [], logs = []\<rparr>
    = Inr (True,
        \<lparr>world =
              [[(''id'', JInt 7), (''name'', JStr ''tx''),
                (''implementation'', JStr ''Transmission''), (''enable'', JBool True),
                (''fields'',
                 JList [JObj [(''name'', JStr ''host''), (''value'', JStr ''tx.local''),
                              (''label'', JStr ''Host'')],
                        JObj [(''name'', JStr ''port''), (''value'', JInt 9091)]])]],
            calls =
              [UpdateDownloadClient ''7''
                [(''id'', JInt 7), (''name'', JStr ''tx''),
                 (''implementation'', JStr ''Transmission''), (''enable'', JBool True),
                 (''fields'',
                  JList [JObj [(''name'', JStr ''host''), (''value'', JStr ''tx.local''),
                               (''label'', JStr ''Host'')],
                         JObj [(''name'', JStr ''port''), (''value'', JInt 9091)]])]],
            logs = []\<rparr>)"
proof -
  have wf_create:
    "\<forall>attrs. dc_get_create_remote_attrs mock_downloadclient_env transmission_local ''sonarr'' []
        = Inr attrs \<longrightarrow> distinct (map fst attrs)"
    by (auto simp: mock_downloadclient_env_def transmission_local_def)
  have wf_update:
    "\<forall>u attrs. dc_get_update_remote_attrs mock_downloadclient_env transmission_local ''sonarr''
        transmission_remote [] = Inr (u, attrs) \<longrightarrow> distinct (map fst attrs)"
    by (auto simp: mock_downloadclient_env_def transmission_local_def)
  have run: ?thesis
    by (simp add: DownloadClient_get_api_schema_def DownloadClient_create_remote_def
      DownloadClient_update_remote_def mock_downloadclient_env_def transmission_schema_def
      transmission_local_def transmission_remote_def transmission_live_def
      implementation_lower_def lower_def lower_char_def dict_get_def dict_has_def
      dict_merge_def merge_field_def invoke_unit_def str_id_def str_int_def str_nat.simps
      Let_def)
  note downloadclient_field_merge_frame [where env = mock_downloadclient_env
        and self = transmission_local and tree = "''sonarr''" and tag_ids = "[]"
        and remote = transmission_remote and schemas = "[transmission_schema]"
        and name = "''tx''" and api_downloadclient = transmission_live
        and st = "\<lparr>world = [], calls = [], logs = []\<rparr>", OF wf_create wf_update]
  with run show ?thesis by blast
qed

lemma next_schema_no_match:
  assumes "\<forall>s\<in>set schemas. \<exists>i. implementation_lower s = Inr i \<and> i \<noteq> lower impl"
  shows "next_schema impl schemas = Inl StopIteration"
  using assms by (induction schemas) auto

text \<open>
  Claim C3. A download client whose implementation (\<open>Qbittorrent\<close>) has no schema in the
  catalog (which offers \<open>Transmission\<close> only): \<open>_get_api_schema\<close>, and with it
  \<open>_create_remote\<close>, raises \<open>StopIteration\<close> from the unguarded \<open>next\<close>, which is not
  \<open>SonarrConfigUnsupportedError\<close> (\<open>next_schema_no_match\<close> is the general form).
\<close>

theorem get_api_schema_unmatched_stop_iteration:
  "DownloadClient_get_api_schema mock_downloadclient_env (''Qbittorrent'', [])
      [transmission_schema] = Inl StopIteration
   \<and> DownloadClient_create_remote mock_downloadclient_env (''Qbittorrent'', []) ''sonarr''
      [transmission_schema] [] ''qbit'' \<lparr>world = [], calls = [], logs = []\<rparr>
      = Inl StopIteration
   \<and> StopIteration \<noteq> SonarrConfigUnsupportedError"
  by (simp add: DownloadClient_get_api_schema_def DownloadClient_create_remote_def
      mock_downloadclient_env_def transmission_schema_def implementation_lower_def
      lower_def lower_char_def)

section \<open>Properties of the import list exclusions\<close>

lemma update_fresh: "k \<notin> fst ` set al \<Longrightarrow> AList.update k v al = al @ [(k, v)]"
  by (induction al) auto

lemma foldl_update_distinct:
  "distinct (map fst (acc @ items)) \<Longrightarrow>
     foldl (\<lambda>d (k, v). AList.update k v d) acc items = acc @ items"
proof (induction items arbitrary: acc)
  case Nil
  then show ?case by simp
next
  case (Cons item items)
  obtain k v where item: "item = (k, v)" by (cases item)
  from Cons.prems item have fresh: "k \<notin> fst ` set acc" by auto
  from Cons.prems item have "distinct (map fst ((acc @ [(k, v)]) @ items))" by simp
  from Cons.IH [OF this] show ?case
    using item fresh by (simp add: update_fresh)
qed

lemma dict_by_distinct:
  "distinct (map key xs) \<Longrightarrow> dict_by key xs = map (\<lambda>x. (key x, x)) xs"
  using foldl_update_distinct [of "[]" "map (\<lambda>x. (key x, x)) xs"]
  by (simp add: dict_by_def dict_of_def comp_def)

lemma dict_values_dict_by: "distinct (map key xs) \<Longrightarrow> dict_values (dict_by key xs) = xs"
  by (simp add: dict_by_distinct dict_values_def comp_def)

lemma dict_has_dict_by: "dict_has (dict_by key xs) k \<longleftrightarrow> k \<in> key ` set xs"
  by (simp add: dict_by_def dict_has_dict_of image_image)

lemma map_of_keyed: "map_of (map (\<lambda>x. (key x, x)) xs) k = find (\<lambda>x. key x = k) xs"
  by (induction xs) auto

lemma map_of_dict_by:
  "distinct (map key xs) \<Longrightarrow> map_of (dict_by key xs) k = find (\<lambda>x. key x = k) xs"
  by (simp add: dict_by_distinct map_of_keyed)

lemma set_update_subset: "set (AList.update k v al) \<subseteq> insert (k, v) (set al)"
  by (induction al) auto

lemma foldl_update_subset:
  "set (foldl (\<lambda>d (k, v). AList.update k v d) acc items) \<subseteq> set acc \<union> set items"
proof (induction items arbitrary: acc)
  case Nil
  then show ?case by simp
next
  case (Cons item items)
  obtain k v where item: "item = (k, v)" by (cases item)
  from Cons.IH [of "AList.update k v acc"] set_update_subset [of k v acc] item
  show ?case by auto
qed

lemma dict_by_entry: "(k, v) \<in> set (dict_by key xs) \<Longrightarrow> key v = k \<and> v \<in> set xs"
  using foldl_update_subset [of "[]" "map (\<lambda>x. (key x, x)) xs"]
  by (auto simp: dict_by_def dict_of_def)

lemma map_of_dict_by_Some:
  "map_of (dict_by key xs) k = Some v \<Longrightarrow> key v = k \<and> v \<in> set xs"
  by (blast dest: map_of_SomeD dict_by_entry)

lemma dict_values_dict_by_keys: "key ` set (dict_values (dict_by key xs)) = key ` set xs"
proof -
  have "fst ` set (dict_by key xs) = key ` set xs"
    by (simp add: dict_by_def dict_of_keys image_image)
  moreover have "fst ` set (dict_by key xs) = key ` set (dict_values (dict_by key xs))"
    by (force simp: dict_values_def dest: dict_by_entry)
  ultimately show ?thesis by simp
qed

lemma dict_get_has: "dict_has d k \<Longrightarrow> \<exists>v. dict_get d k = Inr v \<and> map_of d k = Some v"
  by (auto simp: dict_has_def dict_get_def)

lemma dict_get_not_has: "\<not> dict_has d k \<Longrightarrow> dict_get d k = Inl KeyError"
  by (auto simp: dict_has_def dict_get_def)

lemma ListExclusion_create_remote_ok:
  assumes "\<forall>a w. \<exists>w'. create_exclusions env a w = Inr w'"
  shows "\<exists>st'. ListExclusion_create_remote env e tree st = Inr st'
      \<and> calls st' = calls st @ [CreateExclusions (get_create_remote_attrs env tree e)]"
proof -
  from assms obtain w' where
    "create_exclusions env (get_create_remote_attrs env tree e) (world st) = Inr w'"
    by blast
  then show ?thesis
    by (simp add: ListExclusion_create_remote_def invoke_unit_def)
qed

lemma ListExclusion_update_remote_ok:
  assumes "\<forall>i a w. \<exists>w'. update_exclusions env i a w = Inr w'"
  shows "\<exists>st'. ListExclusion_update_remote env e tree r a st
        = Inr (fst (get_update_remote_attrs env tree e r), st')
      \<and> calls st' = calls st @
          (if fst (get_update_remote_attrs env tree e r) then
             [UpdateExclusions (str_int (res_id a))
                (dict_merge (to_dict a) (snd (get_update_remote_attrs env tree e r)))]
           else [])"
proof (cases "get_update_remote_attrs env tree e r")
  case (Pair updated attrs)
  from assms obtain w' where
    "update_exclusions env (str_int (res_id a)) (dict_merge (to_dict a) attrs) (world st)
       = Inr w'"
    by blast
  with Pair show ?thesis
    by (simp add: ListExclusion_update_remote_def invoke_unit_def)
qed

lemma exclusions_update_loop_keyerror:
  assumes c_ok: "\<forall>a w. \<exists>w'. create_exclusions env a w = Inr w'"
    and u_ok: "\<forall>i a w. \<exists>w'. update_exclusions env i a w = Inr w'"
    and bad: "\<exists>x\<in>set (map snd its). dict_has remote (tmdb_id x) \<and> \<not> dict_has api (tmdb_id x)"
  shows "exclusions_update_loop env tree api remote its changed st = Inl KeyError"
  using bad
proof (induction its arbitrary: changed st)
  case Nil
  then show ?case by simp
next
  case (Cons it its)
  obtain i x where it: "it = (i, x)" by (cases it)
  show ?case
  proof (cases "dict_has remote (tmdb_id x)")
    case False
    with Cons.prems it have rest:
      "\<exists>x\<in>set (map snd its). dict_has remote (tmdb_id x) \<and> \<not> dict_has api (tmdb_id x)"
      by auto
    from ListExclusion_create_remote_ok [OF c_ok, of x "definitions_tree tree (int i)" st]
    obtain st' where
      "ListExclusion_create_remote env x (definitions_tree tree (int i)) st = Inr st'"
      by blast
    with False it Cons.IH [OF rest] show ?thesis by (simp add: Let_def)
  next
    case True
    from dict_get_has [OF True] obtain r where r: "dict_get remote (tmdb_id x) = Inr r"
      by blast
    show ?thesis
    proof (cases "dict_has api (tmdb_id x)")
      case False
      from dict_get_not_has [OF False] True r it show ?thesis
        by (simp add: Let_def)
    next
      case has: True
      with Cons.prems it have rest:
        "\<exists>x\<in>set (map snd its). dict_has remote (tmdb_id x) \<and> \<not> dict_has api (tmdb_id x)"
        by auto
      from dict_get_has [OF has] obtain a where a: "dict_get api (tmdb_id x) = Inr a"
        by blast
      from ListExclusion_update_remote_ok [OF u_ok, of x "definitions_tree tree (int i)" r a st]
      obtain u st' where
        "ListExclusion_update_remote env x (definitions_tree tree (int i)) r a st
           = Inr (u, st')"
        by blast
      with True r a it Cons.IH [OF rest] show ?thesis by (simp add: Let_def)
    qed
  qed
qed

text \<open>
  Claim C10. In \<open>ListExclusionsSettings.update_remote\<close> membership is tested against the
  remote snapshot but the resource is looked up in the fresh listing: when the listing
  succeeds and no create or update call fails, a local exclusion whose \<open>tmdb_id\<close> is in
  the snapshot and not in the fresh listing makes the pass raise \<open>KeyError\<close>.
\<close>

theorem exclusions_update_remote_stale_snapshot_keyerror:
  assumes listed: "list_exclusions env (world st) = Inr (listed, w1)"
    and c_ok: "\<forall>a w. \<exists>w'. create_exclusions env a w = Inr w'"
    and u_ok: "\<forall>i a w. \<exists>w'. update_exclusions env i a w = Inr w'"
    and local: "e \<in> set (definitions self)"
    and snapshot: "tmdb_id e \<in> tmdb_id ` set (definitions remote)"
    and fresh: "tmdb_id e \<notin> res_tmdb_id ` set listed"
  shows "ListExclusionsSettings_update_remote env self tree remote check_unmanaged st
           = Inl KeyError"
proof -
  let ?api = "dict_by res_tmdb_id listed"
  let ?remote = "dict_by tmdb_id (definitions remote)"
  let ?its = "enumerate 0 (dict_values (dict_by tmdb_id (definitions self)))"
  from local have "tmdb_id e \<in> tmdb_id ` set (dict_values (dict_by tmdb_id (definitions self)))"
    by (simp add: dict_values_dict_by_keys)
  then obtain x where x: "x \<in> set (dict_values (dict_by tmdb_id (definitions self)))"
    and key: "tmdb_id x = tmdb_id e"
    by auto
  from snapshot fresh key have "dict_has ?remote (tmdb_id x) \<and> \<not> dict_has ?api (tmdb_id x)"
    by (simp add: dict_has_dict_by)
  with x have bad:
    "\<exists>x\<in>set (map snd ?its). dict_has ?remote (tmdb_id x) \<and> \<not> dict_has ?api (tmdb_id x)"
    by auto
  from listed have "invoke ListExclusions (list_exclusions env) st
      = Inr (listed, st\<lparr>world := w1, calls := calls st @ [ListExclusions]\<rparr>)"
    by (simp add: invoke_def)
  with exclusions_update_loop_keyerror [OF c_ok u_ok bad] show ?thesis
    by (simp add: ListExclusionsSettings_update_remote_def Let_def)
qed

theorem exclusions_update_remote_stale_snapshot_keyerror_witness:
  "ListExclusionsSettings_update_remote mock_exclusions_env
      \<lparr>delete_unmanaged = False, definitions = [\<lparr>tmdb_id = 5, title = ''A'', year = 2000\<rparr>]\<rparr>
      ''sonarr''
      \<lparr>delete_unmanaged = False, definitions = [\<lparr>tmdb_id = 5, title = ''A'', year = 2000\<rparr>]\<rparr>
      False \<lparr>world = [], calls = [], logs = []\<rparr> = Inl KeyError"
proof -
  let ?cfg = "\<lparr>delete_unmanaged = False,
      definitions = [\<lparr>tmdb_id = 5, title = ''A'', year = 2000\<rparr>]\<rparr>"
  let ?st = "\<lparr>world = [] :: ImportExclusionsResource list, calls = [], logs = []\<rparr>"
  have listed: "list_exclusions mock_exclusions_env (world ?st) = Inr ([], [])"
    by (simp add: mock_exclusions_env_def)
  have c_ok: "\<forall>a w. \<exists>w'. create_exclusions mock_exclusions_env a w = Inr w'"
    by (simp add: mock_exclusions_env_def)
  have u_ok: "\<forall>i a w. \<exists>w'. update_exclusions mock_exclusions_env i a w = Inr w'"
    by (simp add: mock_exclusions_env_def)
  have local: "\<lparr>tmdb_id = 5, title = ''A'', year = 2000\<rparr> \<in> set (definitions ?cfg)"
    by simp
  have snapshot: "tmdb_id \<lparr>tmdb_id = 5, title = ''A'', year = 2000\<rparr>
      \<in> tmdb_id ` set (definitions ?cfg)"
    by simp
  have fresh: "tmdb_id \<lparr>tmdb_id = 5, title = ''A'', year = 2000\<rparr>
      \<notin> res_tmdb_id ` set ([] :: ImportExclusionsResource list)"
    by simp
  show ?thesis
    by (rule exclusions_update_remote_stale_snapshot_keyerror
        [OF listed c_ok u_ok local snapshot fresh])
qed

lemma exclusions_delete_loop_returns:
  assumes d_ok: "\<forall>i w. \<exists>w'. delete_exclusions env i w = Inr w'"
    and keys: "delete_unmanaged self \<longrightarrow> (\<forall>r\<in>set rs. dict_has api (tmdb_id r))"
  shows "\<exists>c st'. exclusions_delete_loop env self tree api loc rs i changed st = Inr (c, st')"
  using keys
proof (induction rs arbitrary: i changed st)
  case Nil
  then show ?case by simp
next
  case (Cons r rs)
  from Cons.prems have rest: "delete_unmanaged self \<longrightarrow> (\<forall>r\<in>set rs. dict_has api (tmdb_id r))"
    by simp
  show ?case
  proof (cases "\<not> dict_has loc (tmdb_id r) \<and> delete_unmanaged self")
    case True
    with Cons.prems have "dict_has api (tmdb_id r)" by simp
    from dict_get_has [OF this] obtain a where a: "dict_get api (tmdb_id r) = Inr a"
      by blast
    let ?st0 = "emit INFO ''%s: (...) -> (deleted)'' [ArgStr (definitions_tree tree i)] st"
    from d_ok obtain w' where "delete_exclusions env (res_id a) (world ?st0) = Inr w'"
      by blast
    then obtain st1 where "ListExclusion_delete_remote env (res_id a) ?st0 = Inr st1"
      by (simp add: ListExclusion_delete_remote_def invoke_unit_def)
    with True a Cons.IH [OF rest, of "i - (- 1)" True st1] show ?thesis
      by (simp add: Let_def)
  next
    case False
    with Cons.IH [OF rest] show ?thesis
      by (auto simp: Let_def)
  qed
qed

lemma exclusions_delete_loop_calls:
  assumes "exclusions_delete_loop env self tree api loc rs i changed st = Inr (c, st')"
  shows "c = (changed \<or> (delete_unmanaged self \<and> filter (\<lambda>r. \<not> dict_has loc (tmdb_id r)) rs \<noteq> []))
    \<and> (delete_unmanaged self \<longrightarrow>
          (\<forall>r\<in>set (filter (\<lambda>r. \<not> dict_has loc (tmdb_id r)) rs). dict_has api (tmdb_id r)))
    \<and> calls st' = calls st @
        (if delete_unmanaged self then
           map (\<lambda>r. DeleteExclusions (res_id (the (map_of api (tmdb_id r)))))
             (filter (\<lambda>r. \<not> dict_has loc (tmdb_id r)) rs)
         else [])"
  using assms
proof (induction rs arbitrary: i changed st)
  case Nil
  then show ?case by simp
next
  case (Cons r rs)
  show ?case
  proof (cases "dict_has loc (tmdb_id r)")
    case True
    with Cons.prems have "exclusions_delete_loop env self tree api loc rs i changed st
        = Inr (c, st')"
      by simp
    from Cons.IH [OF this] True show ?thesis by simp
  next
    case False
    show ?thesis
    proof (cases "delete_unmanaged self")
      case du: False
      let ?st0 = "emit DEBUG ''%s: (...) (unmanaged)'' [ArgStr (definitions_tree tree i)] st"
      from Cons.prems False du
      have "exclusions_delete_loop env self tree api loc rs (i - (- 1)) changed ?st0
          = Inr (c, st')"
        by (simp add: Let_def)
      from Cons.IH [OF this] False du show ?thesis by (simp add: emit_def)
    next
      case du: True
      from Cons.prems False du obtain a st1 where
        a: "map_of api (tmdb_id r) = Some a"
        and del: "ListExclusion_delete_remote env (res_id a)
            (emit INFO ''%s: (...) -> (deleted)'' [ArgStr (definitions_tree tree i)] st)
              = Inr st1"
        and rest: "exclusions_delete_loop env self tree api loc rs (i - (- 1)) True st1
            = Inr (c, st')"
        by (auto simp: Let_def dict_get_def split: sum.splits option.splits)
      from del have c1: "calls st1 = calls st @ [DeleteExclusions (res_id a)]"
        by (auto simp: ListExclusion_delete_remote_def invoke_unit_def emit_def
            split: sum.splits)
      from a have "dict_has api (tmdb_id r)" by (simp add: dict_has_def)
      with Cons.IH [OF rest] False du a c1 show ?thesis by simp
    qed
  qed
qed

lemma exclusions_delete_loop_logs:
  assumes "exclusions_delete_loop env self tree api loc rs i changed st = Inr (c, st')"
  shows "logs st' = logs st @
      map (\<lambda>k. if delete_unmanaged self then
                  (INFO, ''%s: (...) -> (deleted)'', [ArgStr (definitions_tree tree (i + int k))])
                else
                  (DEBUG, ''%s: (...) (unmanaged)'', [ArgStr (definitions_tree tree (i + int k))]))
        [0..<length (filter (\<lambda>r. \<not> dict_has loc (tmdb_id r)) rs)]"
  using assms
proof (induction rs arbitrary: i changed st)
  case Nil
  then show ?case by simp
next
  case (Cons r rs)
  show ?case
  proof (cases "dict_has loc (tmdb_id r)")
    case True
    with Cons.prems have "exclusions_delete_loop env self tree api loc rs i changed st
        = Inr (c, st')"
      by simp
    from Cons.IH [OF this] True show ?thesis by simp
  next
    case False
    have shift: "i - (- 1) + int k = i + int (Suc k)" for k by simp
    show ?thesis
    proof (cases "delete_unmanaged self")
      case du: False
      let ?st0 = "emit DEBUG ''%s: (...) (unmanaged)'' [ArgStr (definitions_tree tree i)] st"
      from Cons.prems False du
      have "exclusions_delete_loop env self tree api loc rs (i - (- 1)) changed ?st0
          = Inr (c, st')"
        by (simp add: Let_def)
      from Cons.IH [OF this] False du show ?thesis
        unfolding shift by (simp add: emit_def map_upt_Suc del: upt_Suc)
    next
      case du: True
      from Cons.prems False du obtain a st1 where
        a: "map_of api (tmdb_id r) = Some a"
        and del: "ListExclusion_delete_remote env (res_id a)
            (emit INFO ''%s: (...) -> (deleted)'' [ArgStr (definitions_tree tree i)] st)
              = Inr st1"
        and rest: "exclusions_delete_loop env self tree api loc rs (i - (- 1)) True st1
            = Inr (c, st')"
        by (auto simp: Let_def dict_get_def split: sum.splits option.splits)
      from del have l1: "logs st1 = logs st @
          [(INFO, ''%s: (...) -> (deleted)'', [ArgStr (definitions_tree tree i)])]"
        by (auto simp: ListExclusion_delete_remote_def invoke_unit_def emit_def
            split: sum.splits)
      from Cons.IH [OF rest] False du l1 show ?thesis
        unfolding shift by (simp add: map_upt_Suc del: upt_Suc)
    qed
  qed
qed

lemma exclusions_delete_loop_world:
  assumes "exclusions_delete_loop env self tree api loc rs i changed st = Inr (c, st')"
  shows "run_deletes env
      (if delete_unmanaged self then
         map (\<lambda>r. res_id (the (map_of api (tmdb_id r))))
           (filter (\<lambda>r. \<not> dict_has loc (tmdb_id r)) rs)
       else []) (world st) = Inr (world st')"
  using assms
proof (induction rs arbitrary: i changed st)
  case Nil
  then show ?case by simp
next
  case (Cons r rs)
  show ?case
  proof (cases "dict_has loc (tmdb_id r)")
    case True
    with Cons.prems have "exclusions_delete_loop env self tree api loc rs i changed st
        = Inr (c, st')"
      by simp
    from Cons.IH [OF this] True show ?thesis by auto
  next
    case False
    show ?thesis
    proof (cases "delete_unmanaged self")
      case du: False
      let ?st0 = "emit DEBUG ''%s: (...) (unmanaged)'' [ArgStr (definitions_tree tree i)] st"
      from Cons.prems False du
      have "exclusions_delete_loop env self tree api loc rs (i - (- 1)) changed ?st0
          = Inr (c, st')"
        by (simp add: Let_def)
      from Cons.IH [OF this] False du show ?thesis by (auto simp: emit_def)
    next
      case du: True
      from Cons.prems False du obtain a st1 where
        a: "map_of api (tmdb_id r) = Some a"
        and del: "ListExclusion_delete_remote env (res_id a)
            (emit INFO ''%s: (...) -> (deleted)'' [ArgStr (definitions_tree tree i)] st)
              = Inr st1"
        and rest: "exclusions_delete_loop env self tree api loc rs (i - (- 1)) True st1
            = Inr (c, st')"
        by (auto simp: Let_def dict_get_def split: sum.splits option.splits)
      from del have w1: "delete_exclusions env (res_id a) (world st) = Inr (world st1)"
        by (auto simp: ListExclusion_delete_remote_def invoke_unit_def emit_def
            split: sum.splits)
      from Cons.IH [OF rest] False du a w1 show ?thesis by auto
    qed
  qed
qed

lemma exclusions_delete_loop_returns_unmanaged:
  assumes d_ok: "\<forall>i w. \<exists>w'. delete_exclusions env i w = Inr w'"
    and keys: "delete_unmanaged self \<longrightarrow>
      (\<forall>r\<in>set rs. \<not> dict_has loc (tmdb_id r) \<longrightarrow> dict_has api (tmdb_id r))"
  shows "\<exists>c st'. exclusions_delete_loop env self tree api loc rs i changed st = Inr (c, st')"
  using keys
proof (induction rs arbitrary: i changed st)
  case Nil
  then show ?case by simp
next
  case (Cons r rs)
  from Cons.prems have rest: "delete_unmanaged self \<longrightarrow>
      (\<forall>r\<in>set rs. \<not> dict_has loc (tmdb_id r) \<longrightarrow> dict_has api (tmdb_id r))"
    by simp
  show ?case
  proof (cases "\<not> dict_has loc (tmdb_id r) \<and> delete_unmanaged self")
    case True
    with Cons.prems have "dict_has api (tmdb_id r)" by simp
    from dict_get_has [OF this] obtain a where a: "dict_get api (tmdb_id r) = Inr a"
      by blast
    let ?st0 = "emit INFO ''%s: (...) -> (deleted)'' [ArgStr (definitions_tree tree i)] st"
    from d_ok obtain w' where "delete_exclusions env (res_id a) (world ?st0) = Inr w'"
      by blast
    then obtain st1 where "ListExclusion_delete_remote env (res_id a) ?st0 = Inr st1"
      by (simp add: ListExclusion_delete_remote_def invoke_unit_def)
    with True a Cons.IH [OF rest, of "i - (- 1)" True st1] show ?thesis
      by (simp add: Let_def)
  next
    case False
    with Cons.IH [OF rest] show ?thesis
      by (auto simp: Let_def)
  qed
qed

lemma exclusions_delete_loop_keyerror:
  assumes d_ok: "\<forall>i w. \<exists>w'. delete_exclusions env i w = Inr w'"
    and du: "delete_unmanaged self"
    and bad: "\<exists>r\<in>set rs. \<not> dict_has loc (tmdb_id r) \<and> \<not> dict_has api (tmdb_id r)"
  shows "exclusions_delete_loop env self tree api loc rs i changed st = Inl KeyError"
  using bad
proof (induction rs arbitrary: i changed st)
  case Nil
  then show ?case by simp
next
  case (Cons r rs)
  show ?case
  proof (cases "dict_has loc (tmdb_id r)")
    case True
    with Cons.prems have
      "\<exists>r\<in>set rs. \<not> dict_has loc (tmdb_id r) \<and> \<not> dict_has api (tmdb_id r)"
      by auto
    from Cons.IH [OF this] True show ?thesis by simp
  next
    case False
    show ?thesis
    proof (cases "dict_has api (tmdb_id r)")
      case no: False
      from dict_get_not_has [OF no] False du show ?thesis by (simp add: Let_def)
    next
      case has: True
      with Cons.prems have rest:
        "\<exists>r\<in>set rs. \<not> dict_has loc (tmdb_id r) \<and> \<not> dict_has api (tmdb_id r)"
        by auto
      from dict_get_has [OF has] obtain a where a: "dict_get api (tmdb_id r) = Inr a"
        by blast
      let ?st0 = "emit INFO ''%s: (...) -> (deleted)'' [ArgStr (definitions_tree tree i)] st"
      from d_ok obtain w' where "delete_exclusions env (res_id a) (world ?st0) = Inr w'"
        by blast
      then obtain st1 where "ListExclusion_delete_remote env (res_id a) ?st0 = Inr st1"
        by (simp add: ListExclusion_delete_remote_def invoke_unit_def)
      with False du a Cons.IH [OF rest, of "i - (- 1)" True st1] show ?thesis
        by (simp add: Let_def)
    qed
  qed
qed

text \<open>
  Claim C4, as the code has it. The key of the deletion pass is the \<open>tmdb_id\<close> alone, and
  the id of a deletion is read from the fresh listing. When the listing succeeds, no
  delete call fails and the remote snapshot has one entry per \<open>tmdb_id\<close>:
  with \<open>delete_unmanaged\<close> unset, \<open>delete_remote\<close> returns \<open>False\<close>, its only call is the
  listing and the remote side is as the listing left it;
  with \<open>delete_unmanaged\<close> set and a listed resource for the \<open>tmdb_id\<close> of every remote
  entry that no local entry shares its \<open>tmdb_id\<close> with, it issues after the listing one
  delete call per such entry, in order, for the id of a listed resource of that
  \<open>tmdb_id\<close>, the remote side is what the delete endpoint makes of it applied to these
  ids in turn, and it returns \<open>True\<close> exactly when there is such an entry;
  with \<open>delete_unmanaged\<close> set and such an entry without a listed resource, it raises
  \<open>KeyError\<close>.
\<close>

theorem exclusions_delete_remote_unmanaged:
  assumes listed: "list_exclusions env (world st) = Inr (listed, w1)"
    and d_ok: "\<forall>i w. \<exists>w'. delete_exclusions env i w = Inr w'"
    and dr: "distinct (map tmdb_id (definitions remote))"
  shows
    "(\<not> delete_unmanaged self \<longrightarrow>
        (\<exists>st'. ListExclusionsSettings_delete_remote env self tree remote st = Inr (False, st')
           \<and> calls st' = calls st @ [ListExclusions]
           \<and> world st' = w1))
   \<and> (delete_unmanaged self
        \<and> (\<forall>r\<in>set (unmanaged self remote). tmdb_id r \<in> res_tmdb_id ` set listed) \<longrightarrow>
        (\<exists>st' found.
            ListExclusionsSettings_delete_remote env self tree remote st
              = Inr (unmanaged self remote \<noteq> [], st')
          \<and> list_all2 (\<lambda>r a. a \<in> set listed \<and> res_tmdb_id a = tmdb_id r)
                (unmanaged self remote) found
          \<and> calls st' = calls st @ ListExclusions #
                map (\<lambda>a. DeleteExclusions (res_id a)) found
          \<and> run_deletes env (map res_id found) w1 = Inr (world st')))
   \<and> (delete_unmanaged self
        \<and> (\<exists>r\<in>set (unmanaged self remote). tmdb_id r \<notin> res_tmdb_id ` set listed) \<longrightarrow>
        ListExclusionsSettings_delete_remote env self tree remote st = Inl KeyError)"
proof -
  let ?api = "dict_by res_tmdb_id listed"
  let ?loc = "dict_by tmdb_id (definitions self)"
  let ?st1 = "st\<lparr>world := w1, calls := calls st @ [ListExclusions]\<rparr>"
  let ?found = "map (\<lambda>r. the (map_of ?api (tmdb_id r))) (unmanaged self remote)"
  let ?run = "ListExclusionsSettings_delete_remote env self tree remote st"
  have vals: "dict_values (dict_by tmdb_id (definitions remote)) = definitions remote"
    by (rule dict_values_dict_by [OF dr])
  have un: "filter (\<lambda>r. \<not> dict_has ?loc (tmdb_id r)) (definitions remote) = unmanaged self remote"
    by (simp add: unmanaged_def dict_has_dict_by)
  from listed have inv: "invoke ListExclusions (list_exclusions env) st = Inr (listed, ?st1)"
    by (simp add: invoke_def)
  have run: "?run = exclusions_delete_loop env self tree ?api ?loc (definitions remote) (- 1)
      False ?st1"
    using inv vals by (simp add: ListExclusionsSettings_delete_remote_def Let_def)
  have off: "\<exists>st'. ?run = Inr (False, st') \<and> calls st' = calls st @ [ListExclusions]
      \<and> world st' = w1"
    if no: "\<not> delete_unmanaged self"
  proof -
    from no have "delete_unmanaged self \<longrightarrow>
        (\<forall>r\<in>set (definitions remote). \<not> dict_has ?loc (tmdb_id r) \<longrightarrow> dict_has ?api (tmdb_id r))"
      by simp
    from exclusions_delete_loop_returns_unmanaged [OF d_ok this, of tree "- 1" False ?st1]
    obtain c st' where loop:
      "exclusions_delete_loop env self tree ?api ?loc (definitions remote) (- 1) False ?st1
        = Inr (c, st')"
      by blast
    from exclusions_delete_loop_calls [OF loop] exclusions_delete_loop_world [OF loop] no
    have "c = False" "calls st' = calls st @ [ListExclusions]" "world st' = w1"
      by simp_all
    with loop run show ?thesis by simp
  qed
  have on: "\<exists>st' found. ?run = Inr (unmanaged self remote \<noteq> [], st')
      \<and> list_all2 (\<lambda>r a. a \<in> set listed \<and> res_tmdb_id a = tmdb_id r)
            (unmanaged self remote) found
      \<and> calls st' = calls st @ ListExclusions # map (\<lambda>a. DeleteExclusions (res_id a)) found
      \<and> run_deletes env (map res_id found) w1 = Inr (world st')"
    if du: "delete_unmanaged self"
      and inl: "\<forall>r\<in>set (unmanaged self remote). tmdb_id r \<in> res_tmdb_id ` set listed"
  proof -
    from inl have keys: "\<forall>r\<in>set (unmanaged self remote). dict_has ?api (tmdb_id r)"
      by (simp add: dict_has_dict_by)
    have mem: "r \<in> set (unmanaged self remote)"
      if "r \<in> set (definitions remote)" "\<not> dict_has ?loc (tmdb_id r)" for r
      using that by (simp add: un [symmetric])
    with keys have "delete_unmanaged self \<longrightarrow>
        (\<forall>r\<in>set (definitions remote). \<not> dict_has ?loc (tmdb_id r) \<longrightarrow> dict_has ?api (tmdb_id r))"
      by blast
    from exclusions_delete_loop_returns_unmanaged [OF d_ok this, of tree "- 1" False ?st1]
    obtain c st' where loop:
      "exclusions_delete_loop env self tree ?api ?loc (definitions remote) (- 1) False ?st1
        = Inr (c, st')"
      by blast
    from exclusions_delete_loop_calls [OF loop] un du
    have c: "c = (unmanaged self remote \<noteq> [])"
      and calls: "calls st' = calls st @ ListExclusions #
          map (\<lambda>a. DeleteExclusions (res_id a)) ?found"
      by (simp_all add: comp_def)
    from exclusions_delete_loop_world [OF loop] un du
    have world: "run_deletes env (map res_id ?found) w1 = Inr (world st')"
      by (simp add: comp_def)
    have "\<forall>r\<in>set (unmanaged self remote).
        the (map_of ?api (tmdb_id r)) \<in> set listed
        \<and> res_tmdb_id (the (map_of ?api (tmdb_id r))) = tmdb_id r"
    proof
      fix r assume "r \<in> set (unmanaged self remote)"
      with keys have "dict_has ?api (tmdb_id r)" by blast
      then obtain a where a: "map_of ?api (tmdb_id r) = Some a"
        by (auto simp: dict_has_def)
      from map_of_dict_by_Some [OF a] a
      show "the (map_of ?api (tmdb_id r)) \<in> set listed
        \<and> res_tmdb_id (the (map_of ?api (tmdb_id r))) = tmdb_id r"
        by simp
    qed
    then have "list_all2 (\<lambda>r a. a \<in> set listed \<and> res_tmdb_id a = tmdb_id r)
        (unmanaged self remote) ?found"
      by (simp add: list_all2_map2 list_all2_same)
    with loop run c calls world show ?thesis by auto
  qed
  have stale: "?run = Inl KeyError"
    if du: "delete_unmanaged self"
      and out: "\<exists>r\<in>set (unmanaged self remote). tmdb_id r \<notin> res_tmdb_id ` set listed"
  proof -
    from out un have "\<exists>r\<in>set (definitions remote).
        \<not> dict_has ?loc (tmdb_id r) \<and> \<not> dict_has ?api (tmdb_id r)"
      by (auto simp: unmanaged_def dict_has_dict_by)
    from exclusions_delete_loop_keyerror [OF d_ok du this] run show ?thesis by simp
  qed
  from off on stale show ?thesis by blast
qed

theorem exclusions_delete_remote_unmanaged_witness:
  "(\<exists>st'. ListExclusionsSettings_delete_remote mock_exclusions_env
        \<lparr>delete_unmanaged = True, definitions = [\<lparr>tmdb_id = 5, title = ''A'', year = 2000\<rparr>]\<rparr>
        ''sonarr''
        \<lparr>delete_unmanaged = False,
           definitions = [\<lparr>tmdb_id = 5, title = ''A'', year = 2000\<rparr>,
                          \<lparr>tmdb_id = 6, title = ''B'', year = 2001\<rparr>]\<rparr>
        \<lparr>world = [\<lparr>res_id = 9, res_tmdb_id = 5, res_movie_title = ''A'', res_movie_year = 2000\<rparr>,
                   \<lparr>res_id = 10, res_tmdb_id = 6, res_movie_title = ''B'', res_movie_year = 2001\<rparr>],
           calls = [], logs = []\<rparr> = Inr (True, st')
      \<and> calls st' = [ListExclusions, DeleteExclusions 10]
      \<and> world st' =
          [\<lparr>res_id = 9, res_tmdb_id = 5, res_movie_title = ''A'', res_movie_year = 2000\<rparr>])
   \<and> (\<exists>st'. ListExclusionsSettings_delete_remote mock_exclusions_env
        \<lparr>delete_unmanaged = False, definitions = [\<lparr>tmdb_id = 5, title = ''A'', year = 2000\<rparr>]\<rparr>
        ''sonarr''
        \<lparr>delete_unmanaged = False,
           definitions = [\<lparr>tmdb_id = 5, title = ''A'', year = 2000\<rparr>,
                          \<lparr>tmdb_id = 6, title = ''B'', year = 2001\<rparr>]\<rparr>
        \<lparr>world = [\<lparr>res_id = 9, res_tmdb_id = 5, res_movie_title = ''A'', res_movie_year = 2000\<rparr>,
                   \<lparr>res_id = 10, res_tmdb_id = 6, res_movie_title = ''B'', res_movie_year = 2001\<rparr>],
           calls = [], logs = []\<rparr> = Inr (False, st')
      \<and> calls st' = [ListExclusions]
      \<and> world st' =
          [\<lparr>res_id = 9, res_tmdb_id = 5, res_movie_title = ''A'', res_movie_year = 2000\<rparr>,
           \<lparr>res_id = 10, res_tmdb_id = 6, res_movie_title = ''B'', res_movie_year = 2001\<rparr>])
   \<and> ListExclusionsSettings_delete_remote mock_exclusions_env
        \<lparr>delete_unmanaged = True, definitions = [\<lparr>tmdb_id = 5, title = ''A'', year = 2000\<rparr>]\<rparr>
        ''sonarr''
        \<lparr>delete_unmanaged = False,
           definitions = [\<lparr>tmdb_id = 5, title = ''A'', year = 2000\<rparr>,
                          \<lparr>tmdb_id = 6, title = ''B'', year = 2001\<rparr>]\<rparr>
        \<lparr>world = [\<lparr>res_id = 9, res_tmdb_id = 5, res_movie_title = ''A'', res_movie_year = 2000\<rparr>],
           calls = [], logs = []\<rparr> = Inl KeyError"
proof -
  let ?r9 = "\<lparr>res_id = 9, res_tmdb_id = 5, res_movie_title = ''A'', res_movie_year = 2000\<rparr>"
  let ?r10 = "\<lparr>res_id = 10, res_tmdb_id = 6, res_movie_title = ''B'', res_movie_year = 2001\<rparr>"
  let ?st = "\<lparr>world = [?r9, ?r10], calls = [], logs = []\<rparr>"
  let ?stale = "\<lparr>world = [?r9], calls = [], logs = []\<rparr>"
  let ?remote = "\<lparr>delete_unmanaged = False,
      definitions = [\<lparr>tmdb_id = 5, title = ''A'', year = 2000\<rparr>,
                     \<lparr>tmdb_id = 6, title = ''B'', year = 2001\<rparr>]\<rparr>"
  have listed: "list_exclusions mock_exclusions_env (world ?st) = Inr ([?r9, ?r10], [?r9, ?r10])"
    by (simp add: mock_exclusions_env_def)
  have listed_stale: "list_exclusions mock_exclusions_env (world ?stale) = Inr ([?r9], [?r9])"
    by (simp add: mock_exclusions_env_def)
  have d_ok: "\<forall>i w. \<exists>w'. delete_exclusions mock_exclusions_env i w = Inr w'"
    by (simp add: mock_exclusions_env_def)
  have dr: "distinct (map tmdb_id (definitions ?remote))"
    by simp
  from exclusions_delete_remote_unmanaged [OF listed d_ok dr,
      of "\<lparr>delete_unmanaged = True,
        definitions = [\<lparr>tmdb_id = 5, title = ''A'', year = 2000\<rparr>]\<rparr>" "''sonarr''"]
  have on: "\<exists>st'. ListExclusionsSettings_delete_remote mock_exclusions_env
        \<lparr>delete_unmanaged = True, definitions = [\<lparr>tmdb_id = 5, title = ''A'', year = 2000\<rparr>]\<rparr>
        ''sonarr'' ?remote ?st = Inr (True, st')
      \<and> calls st' = [ListExclusions, DeleteExclusions 10]
      \<and> world st' = [?r9]"
    by (auto simp: unmanaged_def list_all2_Cons1 mock_exclusions_env_def)
  from exclusions_delete_remote_unmanaged [OF listed d_ok dr,
      of "\<lparr>delete_unmanaged = False,
        definitions = [\<lparr>tmdb_id = 5, title = ''A'', year = 2000\<rparr>]\<rparr>" "''sonarr''"]
  have off: "\<exists>st'. ListExclusionsSettings_delete_remote mock_exclusions_env
        \<lparr>delete_unmanaged = False, definitions = [\<lparr>tmdb_id = 5, title = ''A'', year = 2000\<rparr>]\<rparr>
        ''sonarr'' ?remote ?st = Inr (False, st')
      \<and> calls st' = [ListExclusions]
      \<and> world st' = [?r9, ?r10]"
    by auto
  from exclusions_delete_remote_unmanaged [OF listed_stale d_ok dr,
      of "\<lparr>delete_unmanaged = True,
        definitions = [\<lparr>tmdb_id = 5, title = ''A'', year = 2000\<rparr>]\<rparr>" "''sonarr''"]
  have stale: "ListExclusionsSettings_delete_remote mock_exclusions_env
        \<lparr>delete_unmanaged = True, definitions = [\<lparr>tmdb_id = 5, title = ''A'', year = 2000\<rparr>]\<rparr>
        ''sonarr'' ?remote ?stale = Inl KeyError"
    by (simp add: unmanaged_def)
  from on off stale show ?thesis by blast
qed

text \<open>
  Read with the natural key title + year + source id, or without the condition on the
  fresh listing, the statement fails. A remote entry whose natural key no local entry
  has, but whose \<open>tmdb_id\<close> a local entry shares, is not deleted with \<open>delete_unmanaged\<close>
  set: no delete call, \<open>False\<close> returned. A remote entry of the snapshot with no
  resource in the fresh listing gets no delete call either: the pass raises \<open>KeyError\<close>.
\<close>

theorem exclusions_delete_natural_key_counterexample:
  "natural_key \<lparr>tmdb_id = 5, title = ''B'', year = 2001\<rparr>
      \<notin> set (map natural_key [\<lparr>tmdb_id = 5, title = ''A'', year = 2000\<rparr>])
   \<and> ListExclusionsSettings_delete_remote mock_exclusions_env
        \<lparr>delete_unmanaged = True, definitions = [\<lparr>tmdb_id = 5, title = ''A'', year = 2000\<rparr>]\<rparr>
        ''sonarr''
        \<lparr>delete_unmanaged = False, definitions = [\<lparr>tmdb_id = 5, title = ''B'', year = 2001\<rparr>]\<rparr>
        \<lparr>world = [\<lparr>res_id = 9, res_tmdb_id = 5, res_movie_title = ''B'', res_movie_year = 2001\<rparr>],
           calls = [], logs = []\<rparr>
      = Inr (False,
          \<lparr>world = [\<lparr>res_id = 9, res_tmdb_id = 5, res_movie_title = ''B'', res_movie_year = 2001\<rparr>],
             calls = [ListExclusions], logs = []\<rparr>)
   \<and> ListExclusionsSettings_delete_remote mock_exclusions_env
        \<lparr>delete_unmanaged = True, definitions = []\<rparr>
        ''sonarr''
        \<lparr>delete_unmanaged = False, definitions = [\<lparr>tmdb_id = 6, title = ''B'', year = 2001\<rparr>]\<rparr>
        \<lparr>world = [], calls = [], logs = []\<rparr>
      = Inl KeyError"
  by (simp add: ListExclusionsSettings_delete_remote_def mock_exclusions_env_def invoke_def
      dict_by_def dict_of_def dict_values_def dict_has_def dict_get_def natural_key_def
      definitions_tree_def emit_def Let_def)

text \<open>
  The index only enters the log: from two start values of the index, on states with the
  same world and journal, the loop gives the same outcome, world and journal.
\<close>

lemma exclusions_delete_loop_index_free:
  assumes "observable st = observable st2"
  shows "map_sum id (\<lambda>(c, st'). (c, observable st'))
           (exclusions_delete_loop env self tree api loc rs i changed st)
       = map_sum id (\<lambda>(c, st'). (c, observable st'))
           (exclusions_delete_loop env self tree api loc rs j changed st2)"
  using assms
proof (induction rs arbitrary: i j changed st st2)
  case Nil
  then show ?case by simp
next
  case (Cons r rs)
  show ?case
  proof (cases "dict_has loc (tmdb_id r)")
    case True
    with Cons.IH [OF Cons.prems] show ?thesis by simp
  next
    case False
    show ?thesis
    proof (cases "delete_unmanaged self")
      case du: False
      let ?a = "emit DEBUG ''%s: (...) (unmanaged)'' [ArgStr (definitions_tree tree i)] st"
      let ?b = "emit DEBUG ''%s: (...) (unmanaged)'' [ArgStr (definitions_tree tree j)] st2"
      from Cons.prems have "observable ?a = observable ?b"
        by (simp add: observable_def emit_def)
      from Cons.IH [OF this] False du show ?thesis by (simp add: Let_def)
    next
      case du: True
      show ?thesis
      proof (cases "dict_get api (tmdb_id r)")
        case (Inl e)
        with False du show ?thesis by (simp add: Let_def)
      next
        case (Inr a)
        let ?a = "emit INFO ''%s: (...) -> (deleted)'' [ArgStr (definitions_tree tree i)] st"
        let ?b = "emit INFO ''%s: (...) -> (deleted)'' [ArgStr (definitions_tree tree j)] st2"
        from Cons.prems have w: "world ?a = world ?b" and c: "calls ?a = calls ?b"
          by (simp_all add: observable_def emit_def)
        show ?thesis
        proof (cases "delete_exclusions env (res_id a) (world ?a)")
          case err: (Inl e)
          with w False du Inr show ?thesis
            by (simp add: Let_def ListExclusion_delete_remote_def invoke_unit_def)
        next
          case ok: (Inr w')
          let ?a1 = "?a\<lparr>world := w', calls := calls ?a @ [DeleteExclusions (res_id a)]\<rparr>"
          let ?b1 = "?b\<lparr>world := w', calls := calls ?b @ [DeleteExclusions (res_id a)]\<rparr>"
          from c have "observable ?a1 = observable ?b1"
            by (simp add: observable_def)
          from Cons.IH [OF this, where i = "i - (- 1)" and j = "j - (- 1)" and changed = True]
            ok w False du Inr
          show ?thesis
            by (simp add: Let_def ListExclusion_delete_remote_def invoke_unit_def)
        qed
      qed
    qed
  qed
qed

text \<open>
  Claim C9. The index in the log tree path of \<open>delete_remote\<close>: with two unmanaged
  entries the paths logged are \<open>definitions[-1]\<close> and \<open>definitions[0]\<close>; the index
  starts at \<open>-1\<close> and \<open>i -= -1\<close> counts it up (see \<open>exclusions_delete_loop_logs\<close> for
  the general form), so it does not take successive negative values. That the index has no
  influence on the deletions or on the flag is \<open>exclusions_delete_loop_index_free\<close>.
\<close>

theorem exclusions_delete_remote_index_counts_up:
  "ListExclusionsSettings_delete_remote mock_exclusions_env
      \<lparr>delete_unmanaged = False, definitions = []\<rparr>
      ''sonarr''
      \<lparr>delete_unmanaged = False,
         definitions = [\<lparr>tmdb_id = 5, title = ''A'', year = 2000\<rparr>,
                        \<lparr>tmdb_id = 6, title = ''B'', year = 2001\<rparr>]\<rparr>
      \<lparr>world = [\<lparr>res_id = 9, res_tmdb_id = 5, res_movie_title = ''A'', res_movie_year = 2000\<rparr>,
                 \<lparr>res_id = 10, res_tmdb_id = 6, res_movie_title = ''B'', res_movie_year = 2001\<rparr>],
         calls = [], logs = []\<rparr>
    = Inr (False,
        \<lparr>world = [\<lparr>res_id = 9, res_tmdb_id = 5, res_movie_title = ''A'', res_movie_year = 2000\<rparr>,
                 \<lparr>res_id = 10, res_tmdb_id = 6, res_movie_title = ''B'', res_movie_year = 2001\<rparr>],
         calls = [ListExclusions],
         logs = [(DEBUG, ''%s: (...) (unmanaged)'', [ArgStr ''sonarr.definitions[-1]'']),
                 (DEBUG, ''%s: (...) (unmanaged)'', [ArgStr ''sonarr.definitions[0]''])]\<rparr>)"
  by (simp add: ListExclusionsSettings_delete_remote_def mock_exclusions_env_def invoke_def
      dict_by_def dict_of_def dict_values_def dict_has_def definitions_tree_def str_int_def
      str_nat.simps emit_def Let_def)

lemma find_key_iff: "find (\<lambda>x. key x = k) xs \<noteq> None \<longleftrightarrow> k \<in> key ` set xs"
  by (induction xs) auto

lemma exclusions_update_loop_run:
  assumes c_ok: "\<forall>a w. \<exists>w'. create_exclusions env a w = Inr w'"
    and u_ok: "\<forall>i a w. \<exists>w'. update_exclusions env i a w = Inr w'"
    and dr: "distinct (map tmdb_id remotes)"
    and da: "distinct (map res_tmdb_id listed)"
    and cons: "tmdb_id ` set remotes \<subseteq> res_tmdb_id ` set listed"
  shows "\<exists>st'.
      exclusions_update_loop env tree (dict_by res_tmdb_id listed) (dict_by tmdb_id remotes)
        its changed st
        = Inr (changed \<or>
            concat (map (reconcile_update_step env tmdb_id res_tmdb_id tree remotes listed) its)
              \<noteq> [], st')
    \<and> calls st' = calls st @
        concat (map (reconcile_update_step env tmdb_id res_tmdb_id tree remotes listed) its)"
proof (induction its arbitrary: changed st)
  case Nil
  then show ?case by simp
next
  case (Cons it its)
  let ?api = "dict_by res_tmdb_id listed"
  let ?remote = "dict_by tmdb_id remotes"
  let ?step = "reconcile_update_step env tmdb_id res_tmdb_id tree remotes listed"
  obtain i e where it: "it = (i, e)" by (cases it)
  let ?tree = "definitions_tree tree (int i)"
  show ?case
  proof (cases "find (\<lambda>r. tmdb_id r = tmdb_id e) remotes")
    case None
    then have no: "\<not> dict_has ?remote (tmdb_id e)"
      by (simp add: dict_has_def map_of_dict_by [OF dr])
    from None it have step: "?step it = [CreateExclusions (get_create_remote_attrs env ?tree e)]"
      by (simp add: reconcile_update_step_def)
    from ListExclusion_create_remote_ok [OF c_ok, of e ?tree st]
    obtain st1 where cr: "ListExclusion_create_remote env e ?tree st = Inr st1"
      and c1: "calls st1 = calls st @ [CreateExclusions (get_create_remote_attrs env ?tree e)]"
      by blast
    from Cons.IH [of True st1] obtain st' where
      "exclusions_update_loop env tree ?api ?remote its True st1 = Inr (True, st')"
      "calls st' = calls st1 @ concat (map ?step its)"
      by auto
    with no cr c1 step it show ?thesis by (simp add: Let_def)
  next
    case (Some r)
    then have mr: "map_of ?remote (tmdb_id e) = Some r"
      by (simp add: map_of_dict_by [OF dr])
    from Some have "tmdb_id e \<in> tmdb_id ` set remotes"
      using find_key_iff [of tmdb_id "tmdb_id e" remotes] by simp
    with cons have "tmdb_id e \<in> res_tmdb_id ` set listed" by blast
    then have "find (\<lambda>a. res_tmdb_id a = tmdb_id e) listed \<noteq> None"
      by (simp only: find_key_iff)
    then obtain a where fa: "find (\<lambda>a. res_tmdb_id a = tmdb_id e) listed = Some a"
      by blast
    then have ma: "map_of ?api (tmdb_id e) = Some a"
      by (simp add: map_of_dict_by [OF da])
    obtain updated attrs where g: "get_update_remote_attrs env ?tree e r = (updated, attrs)"
      by (cases "get_update_remote_attrs env ?tree e r")
    from Some fa g it have step: "?step it =
        (if updated then [UpdateExclusions (str_int (res_id a)) (dict_merge (to_dict a) attrs)]
         else [])"
      by (simp add: reconcile_update_step_def)
    from ListExclusion_update_remote_ok [OF u_ok, of e ?tree r a st] g
    obtain st1 where up: "ListExclusion_update_remote env e ?tree r a st = Inr (updated, st1)"
      and c1: "calls st1 = calls st @
        (if updated then [UpdateExclusions (str_int (res_id a)) (dict_merge (to_dict a) attrs)]
         else [])"
      by auto
    from Cons.IH [of "if updated then True else changed" st1] obtain st' where
      "exclusions_update_loop env tree ?api ?remote its (if updated then True else changed) st1
         = Inr ((if updated then True else changed) \<or> concat (map ?step its) \<noteq> [], st')"
      "calls st' = calls st1 @ concat (map ?step its)"
      by blast
    with mr ma up c1 step it show ?thesis
      by (simp add: Let_def dict_has_def dict_get_def)
  qed
qed

lemma reconcile_delete_calls_eq:
  assumes "\<forall>r\<in>set rs. dict_has (dict_by res_tmdb_id listed) (tmdb_id r)"
    and da: "distinct (map res_tmdb_id listed)"
  shows "concat (map (reconcile_delete_step tmdb_id res_tmdb_id locals listed) rs)
     = map (\<lambda>r. DeleteExclusions (res_id (the (map_of (dict_by res_tmdb_id listed) (tmdb_id r)))))
         (filter (\<lambda>r. \<not> dict_has (dict_by tmdb_id locals) (tmdb_id r)) rs)"
  using assms(1)
proof (induction rs)
  case Nil
  then show ?case by simp
next
  case (Cons r rs)
  from Cons.prems obtain a where a: "map_of (dict_by res_tmdb_id listed) (tmdb_id r) = Some a"
    by (auto simp: dict_has_def)
  then have fa: "find (\<lambda>a. res_tmdb_id a = tmdb_id r) listed = Some a"
    by (simp add: map_of_dict_by [OF da])
  have loc: "dict_has (dict_by tmdb_id locals) (tmdb_id r)
      \<longleftrightarrow> find (\<lambda>e. tmdb_id e = tmdb_id r) locals \<noteq> None"
    by (simp only: dict_has_dict_by find_key_iff)
  from Cons a fa loc show ?case
    by (auto simp: reconcile_delete_step_def split: option.splits)
qed

text \<open>
  Claim C6, as the code has it. Matching between local and remote list exclusions is by
  the source id alone. When the API calls succeed, each of the local definitions, the
  remote snapshot and the fresh listing has one entry per \<open>tmdb_id\<close>, and the snapshot
  entries are in the listing, \<open>update_remote\<close> and \<open>delete_remote\<close> issue exactly the
  calls of the collection reconciler run with the key \<open>tmdb_id\<close>: title and year play no
  part in pairing a local entry with a remote one (they only decide whether a paired
  entry is updated), and the remote-assigned id appears only as the argument of the
  update and delete calls.
\<close>

theorem exclusions_matching_by_tmdb_id:
  assumes listed: "list_exclusions env (world st) = Inr (listed, w1)"
    and c_ok: "\<forall>a w. \<exists>w'. create_exclusions env a w = Inr w'"
    and u_ok: "\<forall>i a w. \<exists>w'. update_exclusions env i a w = Inr w'"
    and d_ok: "\<forall>i w. \<exists>w'. delete_exclusions env i w = Inr w'"
    and dl: "distinct (map tmdb_id (definitions self))"
    and dr: "distinct (map tmdb_id (definitions remote))"
    and da: "distinct (map res_tmdb_id listed)"
    and cons: "tmdb_id ` set (definitions remote) \<subseteq> res_tmdb_id ` set listed"
  shows
    "(\<exists>st'.
        ListExclusionsSettings_update_remote env self tree remote check_unmanaged st
          = Inr (reconcile_update_calls env tmdb_id res_tmdb_id tree (definitions self)
                   (definitions remote) listed \<noteq> [], st')
      \<and> calls st' = calls st @ ListExclusions #
          reconcile_update_calls env tmdb_id res_tmdb_id tree (definitions self)
            (definitions remote) listed)
   \<and> (\<exists>st'.
        ListExclusionsSettings_delete_remote env self tree remote st
          = Inr (reconcile_delete_calls tmdb_id res_tmdb_id (delete_unmanaged self)
                   (definitions self) (definitions remote) listed \<noteq> [], st')
      \<and> calls st' = calls st @ ListExclusions #
          reconcile_delete_calls tmdb_id res_tmdb_id (delete_unmanaged self)
            (definitions self) (definitions remote) listed)"
proof
  let ?api = "dict_by res_tmdb_id listed"
  let ?loc = "dict_by tmdb_id (definitions self)"
  let ?st1 = "st\<lparr>world := w1, calls := calls st @ [ListExclusions]\<rparr>"
  from listed have inv: "invoke ListExclusions (list_exclusions env) st = Inr (listed, ?st1)"
    by (simp add: invoke_def)
  have lvals: "dict_values ?loc = definitions self"
    by (rule dict_values_dict_by [OF dl])
  have rvals: "dict_values (dict_by tmdb_id (definitions remote)) = definitions remote"
    by (rule dict_values_dict_by [OF dr])
  from exclusions_update_loop_run [OF c_ok u_ok dr da cons,
      of tree "enumerate 0 (definitions self)" False ?st1]
  obtain st' where
    "exclusions_update_loop env tree ?api (dict_by tmdb_id (definitions remote))
        (enumerate 0 (definitions self)) False ?st1
      = Inr (reconcile_update_calls env tmdb_id res_tmdb_id tree (definitions self)
               (definitions remote) listed \<noteq> [], st')"
    "calls st' = calls st @ ListExclusions #
       reconcile_update_calls env tmdb_id res_tmdb_id tree (definitions self)
         (definitions remote) listed"
    by (auto simp: reconcile_update_calls_def)
  with inv lvals
  show "\<exists>st'.
        ListExclusionsSettings_update_remote env self tree remote check_unmanaged st
          = Inr (reconcile_update_calls env tmdb_id res_tmdb_id tree (definitions self)
                   (definitions remote) listed \<noteq> [], st')
      \<and> calls st' = calls st @ ListExclusions #
          reconcile_update_calls env tmdb_id res_tmdb_id tree (definitions self)
            (definitions remote) listed"
    by (simp add: ListExclusionsSettings_update_remote_def Let_def)
  from cons have keys: "\<forall>r\<in>set (definitions remote). dict_has ?api (tmdb_id r)"
    by (auto simp: dict_has_dict_by)
  then have "delete_unmanaged self \<longrightarrow> (\<forall>r\<in>set (definitions remote). dict_has ?api (tmdb_id r))"
    by simp
  from exclusions_delete_loop_returns [OF d_ok this, of tree ?loc "- 1" False ?st1]
  obtain c st2 where
    loop: "exclusions_delete_loop env self tree ?api ?loc (definitions remote) (- 1) False ?st1
      = Inr (c, st2)"
    by blast
  note eq = reconcile_delete_calls_eq [OF keys da, of "definitions self"]
  from exclusions_delete_loop_calls [OF loop] eq
  have "c = (reconcile_delete_calls tmdb_id res_tmdb_id (delete_unmanaged self)
                   (definitions self) (definitions remote) listed \<noteq> [])"
    and "calls st2 = calls st @ ListExclusions #
          reconcile_delete_calls tmdb_id res_tmdb_id (delete_unmanaged self)
            (definitions self) (definitions remote) listed"
    by (simp_all add: reconcile_delete_calls_def)
  with inv loop rvals
  show "\<exists>st'.
        ListExclusionsSettings_delete_remote env self tree remote st
          = Inr (reconcile_delete_calls tmdb_id res_tmdb_id (delete_unmanaged self)
                   (definitions self) (definitions remote) listed \<noteq> [], st')
      \<and> calls st' = calls st @ ListExclusions #
          reconcile_delete_calls tmdb_id res_tmdb_id (delete_unmanaged self)
            (definitions self) (definitions remote) listed"
    by (simp add: ListExclusionsSettings_delete_remote_def Let_def)
qed

theorem exclusions_matching_by_tmdb_id_witness:
  "(\<exists>st'. ListExclusionsSettings_update_remote mock_exclusions_env
        \<lparr>delete_unmanaged = True,
           definitions = [\<lparr>tmdb_id = 5, title = ''A2'', year = 2000\<rparr>,
                          \<lparr>tmdb_id = 7, title = ''C'', year = 2002\<rparr>]\<rparr>
        ''sonarr''
        \<lparr>delete_unmanaged = False,
           definitions = [\<lparr>tmdb_id = 5, title = ''A'', year = 2000\<rparr>,
                          \<lparr>tmdb_id = 6, title = ''B'', year = 2001\<rparr>]\<rparr>
        False
        \<lparr>world = [\<lparr>res_id = 9, res_tmdb_id = 5, res_movie_title = ''A'', res_movie_year = 2000\<rparr>,
                   \<lparr>res_id = 10, res_tmdb_id = 6, res_movie_title = ''B'', res_movie_year = 2001\<rparr>],
           calls = [], logs = []\<rparr> = Inr (True, st')
      \<and> calls st' =
          [ListExclusions,
           UpdateExclusions ''9''
             [(''id'', JInt 9), (''tmdbId'', JInt 5), (''movieTitle'', JStr ''A2''),
              (''movieYear'', JInt 2000)],
           CreateExclusions
             [(''tmdbId'', JInt 7), (''movieTitle'', JStr ''C''), (''movieYear'', JInt 2002)]])
   \<and> (\<exists>st'. ListExclusionsSettings_delete_remote mock_exclusions_env
        \<lparr>delete_unmanaged = True,
           definitions = [\<lparr>tmdb_id = 5, title = ''A2'', year = 2000\<rparr>,
                          \<lparr>tmdb_id = 7, title = ''C'', year = 2002\<rparr>]\<rparr>
        ''sonarr''
        \<lparr>delete_unmanaged = False,
           definitions = [\<lparr>tmdb_id = 5, title = ''A'', year = 2000\<rparr>,
                          \<lparr>tmdb_id = 6, title = ''B'', year = 2001\<rparr>]\<rparr>
        \<lparr>world = [\<lparr>res_id = 9, res_tmdb_id = 5, res_movie_title = ''A'', res_movie_year = 2000\<rparr>,
                   \<lparr>res_id = 10, res_tmdb_id = 6, res_movie_title = ''B'', res_movie_year = 2001\<rparr>],
           calls = [], logs = []\<rparr> = Inr (True, st')
      \<and> calls st' = [ListExclusions, DeleteExclusions 10])"
proof -
  let ?listed = "[\<lparr>res_id = 9, res_tmdb_id = 5, res_movie_title = ''A'', res_movie_year = 2000\<rparr>,
      \<lparr>res_id = 10, res_tmdb_id = 6, res_movie_title = ''B'', res_movie_year = 2001\<rparr>]"
  let ?st = "\<lparr>world = ?listed, calls = [], logs = []\<rparr>"
  let ?self = "\<lparr>delete_unmanaged = True,
           definitions = [\<lparr>tmdb_id = 5, title = ''A2'', year = 2000\<rparr>,
                          \<lparr>tmdb_id = 7, title = ''C'', year = 2002\<rparr>]\<rparr>"
  let ?remote = "\<lparr>delete_unmanaged = False,
      definitions = [\<lparr>tmdb_id = 5, title = ''A'', year = 2000\<rparr>,
                     \<lparr>tmdb_id = 6, title = ''B'', year = 2001\<rparr>]\<rparr>"
  have listed: "list_exclusions mock_exclusions_env (world ?st) = Inr (?listed, ?listed)"
    by (simp add: mock_exclusions_env_def)
  have c_ok: "\<forall>a w. \<exists>w'. create_exclusions mock_exclusions_env a w = Inr w'"
    by (simp add: mock_exclusions_env_def)
  have u_ok: "\<forall>i a w. \<exists>w'. update_exclusions mock_exclusions_env i a w = Inr w'"
    by (simp add: mock_exclusions_env_def)
  have d_ok: "\<forall>i w. \<exists>w'. delete_exclusions mock_exclusions_env i w = Inr w'"
    by (simp add: mock_exclusions_env_def)
  have dl: "distinct (map tmdb_id (definitions ?self))" by simp
  have dr: "distinct (map tmdb_id (definitions ?remote))" by simp
  have da: "distinct (map res_tmdb_id ?listed)" by simp
  have cons: "tmdb_id ` set (definitions ?remote) \<subseteq> res_tmdb_id ` set ?listed" by simp
  have upd: "reconcile_update_calls mock_exclusions_env tmdb_id res_tmdb_id ''sonarr''
      (definitions ?self) (definitions ?remote) ?listed =
        [UpdateExclusions ''9''
           [(''id'', JInt 9), (''tmdbId'', JInt 5), (''movieTitle'', JStr ''A2''),
            (''movieYear'', JInt 2000)],
         CreateExclusions
           [(''tmdbId'', JInt 7), (''movieTitle'', JStr ''C''), (''movieYear'', JInt 2002)]]"
    by (simp add: reconcile_update_calls_def reconcile_update_step_def mock_exclusions_env_def
        exclusion_attrs_def to_dict_def dict_merge_def str_int_def str_nat.simps
        enumerate_eq_zip upt_rec)
  have del: "reconcile_delete_calls tmdb_id res_tmdb_id (delete_unmanaged ?self)
      (definitions ?self) (definitions ?remote) ?listed = [DeleteExclusions 10]"
    by (simp add: reconcile_delete_calls_def reconcile_delete_step_def)
  from exclusions_matching_by_tmdb_id [OF listed c_ok u_ok d_ok dl dr da cons,
      of "''sonarr''" False]
  show ?thesis
    unfolding upd del by simp
qed

text \<open>
  The natural key title + year + source id does not describe the code: a local entry
  and a remote entry with the same \<open>tmdb_id\<close> and different title and year have
  different natural keys, yet the code pairs them (it updates resource 9 and deletes
  nothing), where a reconciler keyed by the natural key creates the local entry and
  deletes resource 9.
\<close>

theorem exclusions_natural_key_counterexample:
  "natural_key \<lparr>tmdb_id = 5, title = ''A'', year = 2000\<rparr>
     \<noteq> natural_key \<lparr>tmdb_id = 5, title = ''B'', year = 2001\<rparr>
   \<and> (\<exists>st'. ListExclusionsSettings_update_remote mock_exclusions_env
        \<lparr>delete_unmanaged = True, definitions = [\<lparr>tmdb_id = 5, title = ''A'', year = 2000\<rparr>]\<rparr>
        ''sonarr''
        \<lparr>delete_unmanaged = False, definitions = [\<lparr>tmdb_id = 5, title = ''B'', year = 2001\<rparr>]\<rparr>
        False
        \<lparr>world = [\<lparr>res_id = 9, res_tmdb_id = 5, res_movie_title = ''B'', res_movie_year = 2001\<rparr>],
           calls = [], logs = []\<rparr> = Inr (True, st')
      \<and> calls st' =
          [ListExclusions,
           UpdateExclusions ''9''
             [(''id'', JInt 9), (''tmdbId'', JInt 5), (''movieTitle'', JStr ''A''),
              (''movieYear'', JInt 2000)]])
   \<and> reconcile_update_calls mock_exclusions_env natural_key resource_natural_key ''sonarr''
        [\<lparr>tmdb_id = 5, title = ''A'', year = 2000\<rparr>]
        [\<lparr>tmdb_id = 5, title = ''B'', year = 2001\<rparr>]
        [\<lparr>res_id = 9, res_tmdb_id = 5, res_movie_title = ''B'', res_movie_year = 2001\<rparr>]
      = [CreateExclusions
           [(''tmdbId'', JInt 5), (''movieTitle'', JStr ''A''), (''movieYear'', JInt 2000)]]
   \<and> (\<exists>st'. ListExclusionsSettings_delete_remote mock_exclusions_env
        \<lparr>delete_unmanaged = True, definitions = [\<lparr>tmdb_id = 5, title = ''A'', year = 2000\<rparr>]\<rparr>
        ''sonarr''
        \<lparr>delete_unmanaged = False, definitions = [\<lparr>tmdb_id = 5, title = ''B'', year = 2001\<rparr>]\<rparr>
        \<lparr>world = [\<lparr>res_id = 9, res_tmdb_id = 5, res_movie_title = ''B'', res_movie_year = 2001\<rparr>],
           calls = [], logs = []\<rparr> = Inr (False, st')
      \<and> calls st' = [ListExclusions])
   \<and> reconcile_delete_calls natural_key resource_natural_key True
        [\<lparr>tmdb_id = 5, title = ''A'', year = 2000\<rparr>]
        [\<lparr>tmdb_id = 5, title = ''B'', year = 2001\<rparr>]
        [\<lparr>res_id = 9, res_tmdb_id = 5, res_movie_title = ''B'', res_movie_year = 2001\<rparr>]
      = [DeleteExclusions 9]"
  by (simp add: ListExclusionsSettings_update_remote_def ListExclusionsSettings_delete_remote_def
      ListExclusion_update_remote_def ListExclusion_create_remote_def
      mock_exclusions_env_def exclusion_attrs_def to_dict_def dict_merge_def dict_by_def
      dict_of_def dict_values_def dict_has_def dict_get_def invoke_def invoke_unit_def
      definitions_tree_def str_int_def str_nat.simps emit_def Let_def
      reconcile_update_calls_def reconcile_update_step_def reconcile_delete_calls_def
      reconcile_delete_step_def natural_key_def resource_natural_key_def
      enumerate_eq_zip upt_rec)

end
